theory Spec2Isabelle
  imports Main
begin

section \<open>Distributed File JSON: the decoder and the encoder of package dfjson\<close>

text \<open>
  The development follows the Go sources \<^verbatim>\<open>decode.go\<close> (the decoder), the encoder file
  (\<^verbatim>\<open>Marshal\<close>, \<^verbatim>\<open>encodeState.encode\<close>) and the \<^verbatim>\<open>dfvcs.VCSDriver\<close> interface with its
  git implementation. Byte buffers and Go strings are \<^typ>\<open>string\<close> (a list of 8-bit
  characters). A Go \<^verbatim>\<open>panic\<close> and a returned \<^verbatim>\<open>error\<close> are values of \<open>error\<close>; the third
  constructor marks the exhaustion of the recursion budget of the decoder model and has
  no counterpart in Go.
\<close>

datatype error = Panic string | Err string | OutOfFuel

subsection \<open>Library functions the sources call\<close>

text \<open>
  \<^verbatim>\<open>strings.ReplaceAll(s, "\\", "/")\<close>, the only way the sources call \<^verbatim>\<open>ReplaceAll\<close>.
\<close>

definition ReplaceAll_backslash :: "string \<Rightarrow> string" where
  "ReplaceAll_backslash s = map (\<lambda>c. if c = CHR 0x5C then CHR ''/'' else c) s"

text \<open>
  \<^verbatim>\<open>filepath.Clean\<close> and \<^verbatim>\<open>filepath.Dir\<close> of the Go standard library for
  slash-separated paths (no volume name): \<open>Clean\<close> drops empty and \<^verbatim>\<open>.\<close> elements,
  cancels an inner \<^verbatim>\<open>..\<close> against the element before it, drops \<^verbatim>\<open>..\<close> at the root and
  returns \<^verbatim>\<open>.\<close> for an empty result; \<open>Dir\<close> cleans the path up to its last separator.
\<close>

fun split_slash :: "string \<Rightarrow> string list" where
  "split_slash [] = [[]]"
| "split_slash (c # cs) =
     (if c = CHR ''/'' then [] # split_slash cs
      else (case split_slash cs of
              [] \<Rightarrow> [[c]]
            | e # es \<Rightarrow> (c # e) # es))"

fun clean_elems :: "bool \<Rightarrow> string list \<Rightarrow> string list \<Rightarrow> string list" where
  "clean_elems rooted out [] = rev out"
| "clean_elems rooted out (e # es) =
     (if e = [] \<or> e = ''.'' then clean_elems rooted out es
      else if e = ''..'' then
        (case out of
           [] \<Rightarrow> if rooted then clean_elems rooted [] es
                 else clean_elems rooted [e] es
         | d # ds \<Rightarrow> if d = ''..'' then clean_elems rooted (e # out) es
                     else clean_elems rooted ds es)
      else clean_elems rooted (e # out) es)"

fun join_slash :: "string list \<Rightarrow> string" where
  "join_slash [] = []"
| "join_slash [e] = e"
| "join_slash (e # es) = e @ ''/'' @ join_slash es"

definition Clean :: "string \<Rightarrow> string" where
  "Clean path =
     (let rooted = (path \<noteq> [] \<and> hd path = CHR ''/'');
          s = (if rooted then ''/'' else []) @ join_slash (clean_elems rooted [] (split_slash path))
      in if s = [] then ''.'' else s)"

definition filepath_Dir :: "string \<Rightarrow> string" where
  "filepath_Dir path = Clean (rev (dropWhile (\<lambda>c. c \<noteq> CHR ''/'') (rev path)))"

text \<open>
  \<^verbatim>\<open>utf8.DecodeRune\<close> of the Go standard library, on the numeric values of the bytes:
  the table \<^verbatim>\<open>first\<close> classifies the leading byte as ASCII, as invalid, or as the start
  of a sequence of \<open>sz\<close> bytes whose second byte must lie in \<open>[lo, hi]\<close>
  (\<^verbatim>\<open>acceptRanges\<close>). The result is the rune and its width in bytes.
\<close>

datatype first_info = ASCII | Invalid | Lead nat nat nat

definition first :: "nat \<Rightarrow> first_info" where
  "first b =
     (if b < 0x80 then ASCII
      else if b < 0xC2 then Invalid
      else if b < 0xE0 then Lead 2 0x80 0xBF
      else if b = 0xE0 then Lead 3 0xA0 0xBF
      else if b < 0xED then Lead 3 0x80 0xBF
      else if b = 0xED then Lead 3 0x80 0x9F
      else if b < 0xF0 then Lead 3 0x80 0xBF
      else if b = 0xF0 then Lead 4 0x90 0xBF
      else if b < 0xF4 then Lead 4 0x80 0xBF
      else if b = 0xF4 then Lead 4 0x80 0x8F
      else Invalid)"

definition RuneError :: nat where
  "RuneError = 0xFFFD"

definition DecodeRune :: "string \<Rightarrow> nat \<times> nat" where
  "DecodeRune p =
     (let n = length p in
      if n < 1 then (RuneError, 0)
      else
        let p0 = (of_char (p ! 0) :: nat) in
        case first p0 of
          ASCII \<Rightarrow> (p0, 1)
        | Invalid \<Rightarrow> (RuneError, 1)
        | Lead sz lo hi \<Rightarrow>
            if n < sz then (RuneError, 1)
            else
              let b1 = (of_char (p ! 1) :: nat) in
              if b1 < lo \<or> hi < b1 then (RuneError, 1)
              else if sz \<le> 2 then ((p0 mod 32) * 64 + b1 mod 64, 2)
              else
                let b2 = (of_char (p ! 2) :: nat) in
                if b2 < 0x80 \<or> 0xBF < b2 then (RuneError, 1)
                else if sz \<le> 3
                  then ((p0 mod 16) * 4096 + (b1 mod 64) * 64 + b2 mod 64, 3)
                else
                  let b3 = (of_char (p ! 3) :: nat) in
                  if b3 < 0x80 \<or> 0xBF < b3 then (RuneError, 1)
                  else ((p0 mod 8) * 262144 + (b1 mod 64) * 4096
                          + (b2 mod 64) * 64 + b3 mod 64, 4))"

lemma DecodeRune_width_pos: "p \<noteq> [] \<Longrightarrow> 0 < snd (DecodeRune p)"
  by (cases p) (auto simp: DecodeRune_def Let_def split: first_info.splits)

lemma DecodeRune_advances:
  assumes "i < length data" and "(r, n) = DecodeRune (drop i data)"
  shows "length data - (i + n) < length data - i"
proof -
  from assms(1) have "drop i data \<noteq> []" by simp
  from DecodeRune_width_pos [OF this] assms(2) have "0 < n" by (metis snd_conv)
  with assms(1) show ?thesis by simp
qed

subsection \<open>The decoder state and \<^verbatim>\<open>truncateLastBracket\<close>\<close>

text \<open>
  \<^verbatim>\<open>decodeState\<close>: the primary buffer \<open>buf\<close>, the incoming buffer and the conflict flag.
  The driver field \<^verbatim>\<open>vscDriver\<close> is set once by \<^verbatim>\<open>Unmarshal\<close> and never changed; the
  model passes it as an argument.
\<close>

record decodeState =
  buf :: string
  incomingBuf :: string
  hasMergeConflict :: bool

text \<open>
  The scanning loop of \<^verbatim>\<open>truncateLastBracket\<close>: \<open>i\<close> runs over the primary buffer
  rune by rune, \<open>lastBracketIndex\<close> starts at \<open>-1\<close> and records the offset of every
  rune equal to \<^verbatim>\<open>'}'\<close> (code point 125).
\<close>

function lastBracketScan :: "string \<Rightarrow> nat \<Rightarrow> int \<Rightarrow> int" where
  "lastBracketScan data i lastBracketIndex =
     (if i < length data
      then (case DecodeRune (drop i data) of
              (r, n) \<Rightarrow> lastBracketScan data (i + n)
                          (if r = 125 then int i else lastBracketIndex))
      else lastBracketIndex)"
  by pat_completeness auto
termination
  by (relation "measure (\<lambda>(data, i, l). length data - i)")
     (auto intro: DecodeRune_advances)

text \<open>
  \<^verbatim>\<open>bytes.Buffer.Truncate(n)\<close> keeps the first \<open>n\<close> bytes and panics when \<open>n\<close> is
  negative or larger than the length of the buffer.
\<close>

definition Truncate :: "string \<Rightarrow> int \<Rightarrow> error + string" where
  "Truncate b n =
     (if n < 0 \<or> int (length b) < n
      then Inl (Panic ''bytes.Buffer: truncation out of range'')
      else Inr (take (nat n) b))"

text \<open>
  \<^verbatim>\<open>truncateLastBracket\<close> returns whether the operation happened, with the new state.
  The index comes from the primary buffer alone; both buffers are cut there.
\<close>

definition truncateLastBracket :: "decodeState \<Rightarrow> error + (bool \<times> decodeState)" where
  "truncateLastBracket state =
     (let lastBracketIndex = lastBracketScan (buf state) 0 (- 1) in
      if lastBracketIndex \<noteq> - 1
      then (case Truncate (buf state) lastBracketIndex of
              Inl e \<Rightarrow> Inl e
            | Inr b \<Rightarrow>
                (case Truncate (incomingBuf state) lastBracketIndex of
                   Inl e \<Rightarrow> Inl e
                 | Inr ib \<Rightarrow> Inr (True, state\<lparr>buf := b, incomingBuf := ib\<rparr>)))
      else Inr (False, state))"

subsection \<open>The file system and the conflict source\<close>

text \<open>
  The decoder reaches the file system through two calls only: \<^verbatim>\<open>os.Open\<close> followed by
  \<^verbatim>\<open>ioutil.ReadAll\<close> on a path, and \<^verbatim>\<open>godirwalk.ReadDirents\<close> on a directory. A file
  system is what these two calls answer, path by path; the listing keeps the order the
  operating system reports.
\<close>

datatype file_result = IsNotExist | OpenFailed string | ReadAllFailed string | FileBytes string

datatype Dirent = Dirent (Name: string) (IsDir: bool)

record filesystem =
  ReadFile :: "string \<Rightarrow> file_result"
  ReadDirents :: "string \<Rightarrow> error + Dirent list"

text \<open>
  \<^verbatim>\<open>dfvcs.VCSDriver\<close>. \<^verbatim>\<open>HandleFile\<close> is handed the path and pointers to the two
  buffers of the decoder, and it may do to them what it likes, whatever it answers.
  \<open>HandleFile d path ours theirs\<close>, for the contents \<open>ours\<close> and \<open>theirs\<close> of the two
  buffers at the call, is \<open>Inl e\<close> when the driver returns the error \<open>e\<close>, and
  \<open>Inr (handled, ours', theirs')\<close> when it returns \<^verbatim>\<open>handled, nil\<close> and leaves the buffers
  holding \<open>ours'\<close> and \<open>theirs'\<close>. (After an error \<^verbatim>\<open>decode\<close> panics, so the buffers no
  longer matter.)
\<close>

record VCSDriver =
  Init :: "error option"
  HandleFile :: "string \<Rightarrow> string \<Rightarrow> string \<Rightarrow> error + (bool \<times> string \<times> string)"

text \<open>\<^verbatim>\<open>panic(err)\<close>: the returned error becomes the value of the panic.\<close>

fun panic :: "error \<Rightarrow> error" where
  "panic (Err m) = Panic m"
| "panic e = e"

subsection \<open>The decoder\<close>

definition WriteAll :: "string \<Rightarrow> decodeState \<Rightarrow> decodeState" where
  "WriteAll b state = state\<lparr>buf := buf state @ b, incomingBuf := incomingBuf state @ b\<rparr>"

text \<open>\<^verbatim>\<open>WriteRuneAll\<close> is only called with the one-byte runes \<^verbatim>\<open>'{'\<close> and \<^verbatim>\<open>'}'\<close>.\<close>

definition WriteRuneAll :: "char \<Rightarrow> decodeState \<Rightarrow> decodeState" where
  "WriteRuneAll r state = state\<lparr>buf := buf state @ [r], incomingBuf := incomingBuf state @ [r]\<rparr>"

definition WriteStringAll :: "string \<Rightarrow> decodeState \<Rightarrow> decodeState" where
  "WriteStringAll str state =
     state\<lparr>buf := buf state @ str, incomingBuf := incomingBuf state @ str\<rparr>"

text \<open>
  The first block of \<^verbatim>\<open>decode\<close> (``Read JSON entry file''): the driver, when there
  is one, is asked first and the buffers are as it leaves them; when it answers
  \<^verbatim>\<open>true\<close> the conflict flag and both bracket flags are set; a file it does not handle
  is read from the file system. The result carries \<^verbatim>\<open>hasOpenedBracket\<close> and
  \<^verbatim>\<open>hasClosingBracket\<close>.
\<close>

definition readEntryFile ::
  "filesystem \<Rightarrow> VCSDriver option \<Rightarrow> string \<Rightarrow> decodeState
     \<Rightarrow> error + (bool \<times> bool \<times> decodeState)" where
  "readEntryFile fs vscDriver path state =
     (case (case vscDriver of
              None \<Rightarrow> Inr (False, state)
            | Some d \<Rightarrow>
                (case HandleFile d path (buf state) (incomingBuf state) of
                   Inl e \<Rightarrow> Inl (panic e)
                 | Inr (fileHandledByVCSDriver, ours, theirs) \<Rightarrow>
                     Inr (fileHandledByVCSDriver,
                          state\<lparr>buf := ours, incomingBuf := theirs,
                                hasMergeConflict :=
                                  (if fileHandledByVCSDriver then True
                                   else hasMergeConflict state)\<rparr>))) of
        Inl e \<Rightarrow> Inl e
      | Inr (fileHandledByVCSDriver, state1) \<Rightarrow>
          if fileHandledByVCSDriver then Inr (True, True, state1)
          else (case ReadFile fs path of
                  IsNotExist \<Rightarrow> Inr (False, False, state1)
                | OpenFailed m \<Rightarrow> Inl (Panic m)
                | ReadAllFailed m \<Rightarrow> Inl (Panic m)
                | FileBytes b \<Rightarrow> Inr (True, True, WriteAll b state1)))"

text \<open>
  The comma written before a discovered directory: a later child gets a plain comma;
  the first child calls \<^verbatim>\<open>truncateLastBracket\<close> and, when that cut something, gets the
  comma and clears \<^verbatim>\<open>hasClosingBracket\<close>. The result is the new \<^verbatim>\<open>hasClosingBracket\<close>
  and the new state.
\<close>

definition beforeField :: "bool \<Rightarrow> bool \<Rightarrow> decodeState \<Rightarrow> error + (bool \<times> decodeState)" where
  "beforeField hasWrittenFirstField hasClosingBracket state =
     (if hasWrittenFirstField then Inr (hasClosingBracket, WriteStringAll '','' state)
      else (case truncateLastBracket state of
              Inl e \<Rightarrow> Inl e
            | Inr (truncated, state') \<Rightarrow>
                if truncated then Inr (False, WriteStringAll '','' state')
                else Inr (hasClosingBracket, state')))"

text \<open>
  \<^verbatim>\<open>decode\<close> and its loop over the directory listing. The first argument bounds the
  depth of the recursion: \<open>decode\<close> at depth \<open>Suc fuel\<close> runs its loop and the calls
  below it with \<open>fuel\<close>.
\<close>

fun decode ::
    "nat \<Rightarrow> filesystem \<Rightarrow> VCSDriver option \<Rightarrow> string \<Rightarrow> decodeState \<Rightarrow> error + decodeState"
  and decode_dirList ::
    "nat \<Rightarrow> filesystem \<Rightarrow> VCSDriver option \<Rightarrow> string \<Rightarrow> Dirent list \<Rightarrow> bool \<Rightarrow> bool
       \<Rightarrow> decodeState \<Rightarrow> error + (bool \<times> decodeState)" where
  "decode 0 fs vscDriver path state = Inl OutOfFuel"
| "decode (Suc fuel) fs vscDriver path state =
     (case readEntryFile fs vscDriver path state of
        Inl e \<Rightarrow> Inl e
      | Inr (hasOpenedBracket, hasClosingBracket, state1) \<Rightarrow>
          (let state2 = (if \<not> hasOpenedBracket then WriteRuneAll CHR ''{'' state1 else state1);
               topDir = ReplaceAll_backslash (filepath_Dir path)
           in case ReadDirents fs topDir of
                Inl e \<Rightarrow> Inl (panic e)
              | Inr dirList \<Rightarrow>
                  (case decode_dirList fuel fs vscDriver topDir dirList False
                          hasClosingBracket state2 of
                     Inl e \<Rightarrow> Inl e
                   | Inr (hasClosingBracket', state3) \<Rightarrow>
                       Inr (if \<not> hasClosingBracket' then WriteRuneAll CHR ''}'' state3
                            else state3))))"
| "decode_dirList fuel fs vscDriver topDir [] hasWrittenFirstField hasClosingBracket state =
     Inr (hasClosingBracket, state)"
| "decode_dirList fuel fs vscDriver topDir (fileOrDir # rest) hasWrittenFirstField
       hasClosingBracket state =
     (if \<not> IsDir fileOrDir
      then decode_dirList fuel fs vscDriver topDir rest hasWrittenFirstField
             hasClosingBracket state
      else (case beforeField hasWrittenFirstField hasClosingBracket state of
              Inl e \<Rightarrow> Inl e
            | Inr (hasClosingBracket1, state1) \<Rightarrow>
                (let dir = Name fileOrDir;
                     state2 = WriteStringAll ([CHR 0x22] @ dir @ [CHR 0x22] @ '':'') state1;
                     path = topDir @ ''/'' @ ReplaceAll_backslash dir @ ''/index.json''
                 in case decode fuel fs vscDriver path state2 of
                      Inl e \<Rightarrow> Inl e
                    | Inr state3 \<Rightarrow>
                        decode_dirList fuel fs vscDriver topDir rest True
                          hasClosingBracket1 state3)))"


text \<open>\<^verbatim>\<open>reflect.Kind\<close>, as far as the sources tell kinds apart.\<close>

datatype Kind = Struct | Map | Ptr | OtherKind string

text \<open>\<^verbatim>\<open>err.Error()\<close>: the text of an error.\<close>

fun Error_text :: "error \<Rightarrow> string" where
  "Error_text (Panic m) = m"
| "Error_text (Err m) = m"
| "Error_text OutOfFuel = []"

text \<open>\<^verbatim>\<open>var state decodeState\<close>: both buffers empty, no conflict seen.\<close>

definition zeroState :: decodeState where
  "zeroState = \<lparr>buf = [], incomingBuf = [], hasMergeConflict = False\<rparr>"

text \<open>
  \<^verbatim>\<open>Unmarshal\<close>. Its arguments here: the recursion budget and the file system,
  \<^verbatim>\<open>filepath.Abs\<close>, \<^verbatim>\<open>json.Unmarshal\<close> into the destination (the same function reads
  both buffers), the entry file name, the kind of the destination \<^verbatim>\<open>v\<close> and the driver.
  The result is \<^verbatim>\<open>hasMergeConflict\<close> with what was stored in \<^verbatim>\<open>v\<close> and, after a
  conflict, in \<^verbatim>\<open>incomingV\<close>.
\<close>

definition Unmarshal ::
  "nat \<Rightarrow> filesystem \<Rightarrow> (string \<Rightarrow> error + string) \<Rightarrow> (string \<Rightarrow> error + 'v) \<Rightarrow> string \<Rightarrow> Kind
     \<Rightarrow> VCSDriver option \<Rightarrow> error + (bool \<times> 'v \<times> 'v option)" where
  "Unmarshal fuel fs filepath_Abs json_Unmarshal entryFilename decodeKind vcsDriver =
     (if decodeKind \<noteq> Ptr then Inl (Err ''Must provide pointer value'')
      else
        (case (case vcsDriver of None \<Rightarrow> None | Some d \<Rightarrow> Init d) of
           Some e \<Rightarrow> Inl e
         | None \<Rightarrow>
             (case filepath_Abs entryFilename of
                Inl e \<Rightarrow> Inl e
              | Inr absEntryFilename \<Rightarrow>
                  (case decode fuel fs vcsDriver (ReplaceAll_backslash absEntryFilename)
                          zeroState of
                     Inl e \<Rightarrow> Inl e
                   | Inr state \<Rightarrow>
                       (case json_Unmarshal (buf state) of
                          Inl e \<Rightarrow>
                            Inl (Panic (''failed to parse:'' @ buf state @ [CHR 0x0A]
                                         @ Error_text e))
                        | Inr v \<Rightarrow>
                            if hasMergeConflict state
                            then (case json_Unmarshal (incomingBuf state) of
                                    Inl e \<Rightarrow>
                                      Inl (Panic (''failed to parse incoming:''
                                                   @ incomingBuf state @ [CHR 0x0A]
                                                   @ Error_text e))
                                  | Inr incomingV \<Rightarrow> Inr (True, v, Some incomingV))
                            else Inr (False, v, None))))))"

subsection \<open>The values the encoder walks\<close>

text \<open>
  The encoder inspects its argument by reflection. A value is modelled by what the
  encoder can see of it: a struct with its fields in declaration order, a pointer (nil or
  not), a map with its entries in the order \<^verbatim>\<open>MapKeys\<close> returns them, or a value of
  another kind (integers, strings and booleans stand for these). A struct field carries
  the \<^verbatim>\<open>reflect.StructField\<close> data the encoder reads: \<^verbatim>\<open>Name\<close>, \<^verbatim>\<open>PkgPath\<close>,
  \<^verbatim>\<open>Anonymous\<close>, the kind structure of \<^verbatim>\<open>Type\<close> and the tag as key/value pairs.
\<close>

datatype gtype = StructT | PtrT gtype | MapT | OtherT

record StructField =
  FieldName :: string
  PkgPath :: string
  Anonymous :: bool
  FieldType :: gtype
  Tag :: "(string \<times> string) list"

text \<open>
  A map key either implements \<^verbatim>\<open>encoding.TextMarshaler\<close> (with the result of its
  \<^verbatim>\<open>MarshalText\<close>) or is rendered by \<^verbatim>\<open>fmt.Sprintf("%v", key)\<close> (with that rendering).
\<close>

datatype MapKey = TextMarshaler "error + string" | Sprintf_v string

datatype GoValue =
    StructV "(StructField \<times> GoValue) list"
  | PtrV GoValue
  | NilPtrV
  | MapV "(MapKey \<times> GoValue) list"
  | IntV int
  | StringV string
  | BoolV bool

fun Kind_of :: "GoValue \<Rightarrow> Kind" where
  "Kind_of (StructV flds) = Struct"
| "Kind_of (PtrV v) = Ptr"
| "Kind_of NilPtrV = Ptr"
| "Kind_of (MapV entries) = Map"
| "Kind_of (IntV i) = OtherKind ''int''"
| "Kind_of (StringV s) = OtherKind ''string''"
| "Kind_of (BoolV b) = OtherKind ''bool''"

definition Tag_Lookup :: "(string \<times> string) list \<Rightarrow> string \<Rightarrow> string option" where
  "Tag_Lookup tag key = map_of tag key"

definition Tag_Get :: "(string \<times> string) list \<Rightarrow> string \<Rightarrow> string" where
  "Tag_Get tag key = (case Tag_Lookup tag key of None \<Rightarrow> [] | Some v \<Rightarrow> v)"

text \<open>\<^verbatim>\<open>strings.Index(tag, ",")\<close> and \<^verbatim>\<open>strings.Contains\<close>.\<close>

definition Index_comma :: "string \<Rightarrow> int" where
  "Index_comma s =
     (if CHR '','' \<in> set s then int (length (takeWhile (\<lambda>c. c \<noteq> CHR '','') s)) else - 1)"

fun Contains :: "string \<Rightarrow> string \<Rightarrow> bool" where
  "Contains [] substr = (substr = [])"
| "Contains (c # cs) substr = (take (length substr) (c # cs) = substr \<or> Contains cs substr)"

subsection \<open>The encoder\<close>

datatype JSONFile = JSONFile (Path: string) (Data: string)

text \<open>
  The block ``Ignore unexported field'' of \<^verbatim>\<open>encode\<close>: whether the loop skips the
  field before it looks at the tag.
\<close>

definition ignoreUnexported :: "StructField \<Rightarrow> bool" where
  "ignoreUnexported fieldType =
     (let isUnexported = (PkgPath fieldType \<noteq> []) in
      if Anonymous fieldType
      then (let t = (case FieldType fieldType of PtrT t' \<Rightarrow> t' | t' \<Rightarrow> t')
            in isUnexported \<and> t \<noteq> StructT)
      else isUnexported)"

text \<open>
  The name and the options of the \<^verbatim>\<open>json\<close> tag: the tag is cut at its first comma,
  and an empty name defaults to the name of the Go field.
\<close>

definition jsonFieldName :: "StructField \<Rightarrow> string" where
  "jsonFieldName fieldType =
     (let tag = Tag_Get (Tag fieldType) ''json'';
          idx = Index_comma tag;
          name = (if idx \<noteq> - 1 then take (nat idx) tag else tag)
      in if name = [] then FieldName fieldType else name)"

definition jsonOptions :: "StructField \<Rightarrow> string" where
  "jsonOptions fieldType =
     (let tag = Tag_Get (Tag fieldType) ''json'';
          idx = Index_comma tag
      in if idx \<noteq> - 1 then drop (nat (idx + 1)) tag else [])"

text \<open>
  \<^verbatim>\<open>encode\<close> with its two loops. The first argument is \<^verbatim>\<open>json.Marshal\<close> on the value of
  an inline field. \<open>Paths\<close> is \<^verbatim>\<open>state.Paths\<close>; the loop over the fields carries the
  fragment buffer \<open>fbuf\<close> (the local \<^verbatim>\<open>buf\<close>) and \<^verbatim>\<open>hasWrittenFirstField\<close>. \<^verbatim>\<open>Value.Addr\<close> panics on a map element
  (it is not addressable), \<^verbatim>\<open>Value.Interface\<close> panics on a field reached through an
  unexported name, and \<^verbatim>\<open>NumField\<close> panics on anything but a struct.
\<close>

fun encode ::
    "(GoValue \<Rightarrow> error + string) \<Rightarrow> string \<Rightarrow> GoValue \<Rightarrow> JSONFile list \<Rightarrow> error + JSONFile list"
  and encode_MapKeys ::
    "(GoValue \<Rightarrow> error + string) \<Rightarrow> string \<Rightarrow> (MapKey \<times> GoValue) list \<Rightarrow> JSONFile list
       \<Rightarrow> error + JSONFile list"
  and encode_fields ::
    "(GoValue \<Rightarrow> error + string) \<Rightarrow> string \<Rightarrow> (StructField \<times> GoValue) list \<Rightarrow> string \<Rightarrow> bool
       \<Rightarrow> JSONFile list \<Rightarrow> error + (string \<times> bool \<times> JSONFile list)" where
  "encode json_Marshal path (StructV flds) Paths =
     Inl (Panic ''Unexpected error. Must transform struct to pointer before calling encode'')"
| "encode json_Marshal path (MapV entries) Paths =
     encode_MapKeys json_Marshal path entries Paths"
| "encode json_Marshal path (PtrV (StructV flds)) Paths =
     (case encode_fields json_Marshal path flds ''{'' False Paths of
        Inl e \<Rightarrow> Inl e
      | Inr (fbuf, hasWrittenFirstField, Paths') \<Rightarrow>
          Inr (Paths' @ [JSONFile path (if hasWrittenFirstField then fbuf @ ''}'' else fbuf)]))"
| "encode json_Marshal path (PtrV v) Paths =
     Inl (Panic ''reflect: call of reflect.Value.NumField on non-struct Value'')"
| "encode json_Marshal path NilPtrV Paths =
     Inl (Panic ''reflect: call of reflect.Value.NumField on zero Value'')"
| "encode json_Marshal path (IntV i) Paths = Inl (Panic ''Unhandled kind: int'')"
| "encode json_Marshal path (StringV s) Paths = Inl (Panic ''Unhandled kind: string'')"
| "encode json_Marshal path (BoolV b) Paths = Inl (Panic ''Unhandled kind: bool'')"
| "encode_MapKeys json_Marshal path [] Paths = Inr Paths"
| "encode_MapKeys json_Marshal path ((mapKey, mapValue) # rest) Paths =
     (case (case mapKey of TextMarshaler r \<Rightarrow> r | Sprintf_v s \<Rightarrow> Inr s) of
        Inl e \<Rightarrow> Inl e
      | Inr keyStringValue \<Rightarrow>
          if Kind_of mapValue = Struct
          then Inl (Panic ''reflect.Value.Addr of unaddressable value'')
          else (let dir = ReplaceAll_backslash (filepath_Dir path)
                in case encode json_Marshal (dir @ ''/'' @ keyStringValue @ ''/index.json'')
                          mapValue Paths of
                     Inl e \<Rightarrow> Inl e
                   | Inr Paths' \<Rightarrow> encode_MapKeys json_Marshal path rest Paths'))"
| "encode_fields json_Marshal path [] fbuf hasWrittenFirstField Paths =
     Inr (fbuf, hasWrittenFirstField, Paths)"
| "encode_fields json_Marshal path ((fieldType, field) # rest) fbuf hasWrittenFirstField Paths =
     (if ignoreUnexported fieldType
      then encode_fields json_Marshal path rest fbuf hasWrittenFirstField Paths
      else if Tag_Get (Tag fieldType) ''json'' = ''-''
      then encode_fields json_Marshal path rest fbuf hasWrittenFirstField Paths
      else if Contains (jsonOptions fieldType) ''omitempty''
      then encode_fields json_Marshal path rest fbuf hasWrittenFirstField Paths
      else if Contains (jsonOptions fieldType) ''string''
      then Inl (Panic (''No support for '' @ [CHR 0x22] @ ''string'' @ [CHR 0x22] @ '' in DFJSON.''))
      else if PkgPath fieldType \<noteq> []
      then Inl (Panic ''reflect.Value.Interface: cannot return value obtained from unexported field or method'')
      else if Tag_Lookup (Tag fieldType) ''dfjson'' = Some ''distributable''
      then (case encode json_Marshal (filepath_Dir path @ ''/'' @ jsonFieldName fieldType @ ''/'')
                   (if Kind_of field = Struct then PtrV field else field) Paths of
              Inl e \<Rightarrow> Inl e
            | Inr Paths' \<Rightarrow>
                encode_fields json_Marshal path rest fbuf hasWrittenFirstField Paths')
      else (case json_Marshal field of
              Inl e \<Rightarrow> Inl e
            | Inr fieldValue \<Rightarrow>
                encode_fields json_Marshal path rest
                  (fbuf @ (if hasWrittenFirstField then '','' else [])
                       @ [CHR 0x22] @ jsonFieldName fieldType @ [CHR 0x22] @ '':'' @ fieldValue)
                  True Paths))"

text \<open>\<^verbatim>\<open>marshal\<close> starts from an empty \<^verbatim>\<open>encodeState\<close>.\<close>

definition marshal ::
  "(GoValue \<Rightarrow> error + string) \<Rightarrow> string \<Rightarrow> GoValue \<Rightarrow> error + JSONFile list" where
  "marshal json_Marshal entryFilename v = encode json_Marshal entryFilename v []"

text \<open>
  \<^verbatim>\<open>marshalIndent\<close> passes the data of every file through \<^verbatim>\<open>json.Indent\<close> (the second
  argument here, applied to source, prefix and indent) and fails when that fails;
  \<^verbatim>\<open>Marshal\<close> calls it with an empty prefix and a tab.
\<close>

fun indent_list ::
  "(string \<Rightarrow> string \<Rightarrow> string \<Rightarrow> error + string) \<Rightarrow> string \<Rightarrow> string \<Rightarrow> JSONFile list
     \<Rightarrow> error + JSONFile list" where
  "indent_list json_Indent prefix indent [] = Inr []"
| "indent_list json_Indent prefix indent (item # list) =
     (case json_Indent (Data item) prefix indent of
        Inl e \<Rightarrow> Inl e
      | Inr d \<Rightarrow>
          (case indent_list json_Indent prefix indent list of
             Inl e \<Rightarrow> Inl e
           | Inr list' \<Rightarrow> Inr (JSONFile (Path item) d # list')))"

definition marshalIndent ::
  "(GoValue \<Rightarrow> error + string) \<Rightarrow> (string \<Rightarrow> string \<Rightarrow> string \<Rightarrow> error + string)
     \<Rightarrow> string \<Rightarrow> GoValue \<Rightarrow> string \<Rightarrow> string \<Rightarrow> error + JSONFile list" where
  "marshalIndent json_Marshal json_Indent entryFilename v prefix indent =
     (case marshal json_Marshal entryFilename v of
        Inl e \<Rightarrow> Inl e
      | Inr list \<Rightarrow> indent_list json_Indent prefix indent list)"

definition Marshal ::
  "(GoValue \<Rightarrow> error + string) \<Rightarrow> (string \<Rightarrow> string \<Rightarrow> string \<Rightarrow> error + string)
     \<Rightarrow> string \<Rightarrow> GoValue \<Rightarrow> error + JSONFile list" where
  "Marshal json_Marshal json_Indent entryFilename v =
     marshalIndent json_Marshal json_Indent entryFilename v [] [CHR 0x09]"

subsection \<open>\<^verbatim>\<open>encoding/json\<close>: the scanner, \<^verbatim>\<open>Indent\<close> and a reader\<close>

text \<open>
  \<^verbatim>\<open>Marshal\<close> and \<^verbatim>\<open>Unmarshal\<close> take the functions of \<^verbatim>\<open>encoding/json\<close> as arguments.
  To run them on concrete documents, the functions are modelled here after the Go
  standard library: the scanner of \<^verbatim>\<open>scanner.go\<close> (a state function per state, the
  stack \<^verbatim>\<open>parseState\<close> with its top at the end), and \<^verbatim>\<open>Indent\<close> of \<^verbatim>\<open>indent.go\<close>,
  which copies the bytes the scanner accepts, re-spaced, and fails when the scanner
  does.
\<close>

datatype step_fn =
    StateBeginValueOrEmpty | StateBeginValue | StateBeginStringOrEmpty | StateBeginString
  | StateEndValue | StateEndTop | StateInString | StateInStringEsc
  | StateInStringEscU | StateInStringEscU1 | StateInStringEscU12 | StateInStringEscU123
  | StateNeg | State1 | State0 | StateDot | StateDot0 | StateE | StateESign | StateE0
  | StateT | StateTr | StateTru | StateF | StateFa | StateFal | StateFals
  | StateN | StateNu | StateNul | StateError

datatype parse_state = parseObjectKey | parseObjectValue | parseArrayValue

datatype scan_code =
    scanContinue | scanBeginLiteral | scanBeginObject | scanObjectKey | scanObjectValue
  | scanEndObject | scanBeginArray | scanArrayValue | scanEndArray | scanSkipSpace
  | scanEnd | scanError

record scanner =
  step :: step_fn
  endTop :: bool
  parseState :: "parse_state list"

definition newScanner :: scanner where
  "newScanner = \<lparr>step = StateBeginValue, endTop = False, parseState = []\<rparr>"

definition isSpace :: "char \<Rightarrow> bool" where
  "isSpace c = (c = CHR '' '' \<or> c = CHR 0x09 \<or> c = CHR 0x0D \<or> c = CHR 0x0A)"

definition isDigit :: "char \<Rightarrow> bool" where
  "isDigit c = (48 \<le> (of_char c :: nat) \<and> (of_char c :: nat) \<le> 57)"


definition isHex :: "char \<Rightarrow> bool" where
  "isHex c = (isDigit c \<or> (97 \<le> (of_char c :: nat) \<and> (of_char c :: nat) \<le> 102)
                \<or> (65 \<le> (of_char c :: nat) \<and> (of_char c :: nat) \<le> 70))"

definition maxNestingDepth :: nat where
  "maxNestingDepth = 10000"

definition scanner_error :: "scanner \<Rightarrow> scanner \<times> scan_code" where
  "scanner_error s = (s\<lparr>step := StateError\<rparr>, scanError)"

definition pushParseState :: "scanner \<Rightarrow> parse_state \<Rightarrow> scan_code \<Rightarrow> scanner \<times> scan_code" where
  "pushParseState s newParseState successState =
     (let s' = s\<lparr>parseState := parseState s @ [newParseState]\<rparr>
      in if length (parseState s') \<le> maxNestingDepth then (s', successState)
         else scanner_error s')"

definition popParseState :: "scanner \<Rightarrow> scanner" where
  "popParseState s =
     (let ps = butlast (parseState s)
      in if length ps = 0 then s\<lparr>parseState := ps, step := StateEndTop, endTop := True\<rparr>
         else s\<lparr>parseState := ps, step := StateEndValue\<rparr>)"

definition stateEndTop :: "scanner \<Rightarrow> char \<Rightarrow> scanner \<times> scan_code" where
  "stateEndTop s c = (if \<not> isSpace c then (fst (scanner_error s), scanEnd) else (s, scanEnd))"

definition stateEndValue :: "scanner \<Rightarrow> char \<Rightarrow> scanner \<times> scan_code" where
  "stateEndValue s c =
     (let n = length (parseState s) in
      if n = 0 then stateEndTop (s\<lparr>step := StateEndTop, endTop := True\<rparr>) c
      else if isSpace c then (s\<lparr>step := StateEndValue\<rparr>, scanSkipSpace)
      else (case last (parseState s) of
              parseObjectKey \<Rightarrow>
                if c = CHR '':''
                then (s\<lparr>parseState := butlast (parseState s) @ [parseObjectValue],
                        step := StateBeginValue\<rparr>, scanObjectKey)
                else scanner_error s
            | parseObjectValue \<Rightarrow>
                if c = CHR '',''
                then (s\<lparr>parseState := butlast (parseState s) @ [parseObjectKey],
                        step := StateBeginString\<rparr>, scanObjectValue)
                else if c = CHR ''}'' then (popParseState s, scanEndObject)
                else scanner_error s
            | parseArrayValue \<Rightarrow>
                if c = CHR '','' then (s\<lparr>step := StateBeginValue\<rparr>, scanArrayValue)
                else if c = CHR '']'' then (popParseState s, scanEndArray)
                else scanner_error s))"

definition stateBeginValue :: "scanner \<Rightarrow> char \<Rightarrow> scanner \<times> scan_code" where
  "stateBeginValue s c =
     (if isSpace c then (s, scanSkipSpace)
      else if c = CHR ''{''
        then pushParseState (s\<lparr>step := StateBeginStringOrEmpty\<rparr>) parseObjectKey scanBeginObject
      else if c = CHR ''[''
        then pushParseState (s\<lparr>step := StateBeginValueOrEmpty\<rparr>) parseArrayValue scanBeginArray
      else if c = CHR 0x22 then (s\<lparr>step := StateInString\<rparr>, scanBeginLiteral)
      else if c = CHR ''-'' then (s\<lparr>step := StateNeg\<rparr>, scanBeginLiteral)
      else if c = CHR ''0'' then (s\<lparr>step := State0\<rparr>, scanBeginLiteral)
      else if c = CHR ''t'' then (s\<lparr>step := StateT\<rparr>, scanBeginLiteral)
      else if c = CHR ''f'' then (s\<lparr>step := StateF\<rparr>, scanBeginLiteral)
      else if c = CHR ''n'' then (s\<lparr>step := StateN\<rparr>, scanBeginLiteral)
      else if isDigit c then (s\<lparr>step := State1\<rparr>, scanBeginLiteral)
      else scanner_error s)"

definition stateBeginValueOrEmpty :: "scanner \<Rightarrow> char \<Rightarrow> scanner \<times> scan_code" where
  "stateBeginValueOrEmpty s c =
     (if isSpace c then (s, scanSkipSpace)
      else if c = CHR '']'' then stateEndValue s c
      else stateBeginValue s c)"

definition stateBeginString :: "scanner \<Rightarrow> char \<Rightarrow> scanner \<times> scan_code" where
  "stateBeginString s c =
     (if isSpace c then (s, scanSkipSpace)
      else if c = CHR 0x22 then (s\<lparr>step := StateInString\<rparr>, scanBeginLiteral)
      else scanner_error s)"

definition stateBeginStringOrEmpty :: "scanner \<Rightarrow> char \<Rightarrow> scanner \<times> scan_code" where
  "stateBeginStringOrEmpty s c =
     (if isSpace c then (s, scanSkipSpace)
      else if c = CHR ''}''
        then stateEndValue (s\<lparr>parseState := butlast (parseState s) @ [parseObjectValue]\<rparr>) c
      else stateBeginString s c)"

definition stateInString :: "scanner \<Rightarrow> char \<Rightarrow> scanner \<times> scan_code" where
  "stateInString s c =
     (if c = CHR 0x22 then (s\<lparr>step := StateEndValue\<rparr>, scanContinue)
      else if c = CHR 0x5C then (s\<lparr>step := StateInStringEsc\<rparr>, scanContinue)
      else if (of_char c :: nat) < 0x20 then scanner_error s
      else (s, scanContinue))"

definition stateInStringEsc :: "scanner \<Rightarrow> char \<Rightarrow> scanner \<times> scan_code" where
  "stateInStringEsc s c =
     (if c \<in> set ''bfnrt'' \<or> c = CHR 0x5C \<or> c = CHR ''/'' \<or> c = CHR 0x22
      then (s\<lparr>step := StateInString\<rparr>, scanContinue)
      else if c = CHR ''u'' then (s\<lparr>step := StateInStringEscU\<rparr>, scanContinue)
      else scanner_error s)"

definition expect :: "bool \<Rightarrow> step_fn \<Rightarrow> scanner \<Rightarrow> scanner \<times> scan_code" where
  "expect ok next s = (if ok then (s\<lparr>step := next\<rparr>, scanContinue) else scanner_error s)"

definition stateE0 :: "scanner \<Rightarrow> char \<Rightarrow> scanner \<times> scan_code" where
  "stateE0 s c = (if isDigit c then (s, scanContinue) else stateEndValue s c)"

definition stateESign :: "scanner \<Rightarrow> char \<Rightarrow> scanner \<times> scan_code" where
  "stateESign s c = expect (isDigit c) StateE0 s"

definition stateE :: "scanner \<Rightarrow> char \<Rightarrow> scanner \<times> scan_code" where
  "stateE s c =
     (if c = CHR ''+'' \<or> c = CHR ''-'' then (s\<lparr>step := StateESign\<rparr>, scanContinue)
      else stateESign s c)"

definition stateDot0 :: "scanner \<Rightarrow> char \<Rightarrow> scanner \<times> scan_code" where
  "stateDot0 s c =
     (if isDigit c then (s, scanContinue)
      else if c = CHR ''e'' \<or> c = CHR ''E'' then (s\<lparr>step := StateE\<rparr>, scanContinue)
      else stateEndValue s c)"

definition state0 :: "scanner \<Rightarrow> char \<Rightarrow> scanner \<times> scan_code" where
  "state0 s c =
     (if c = CHR ''.'' then (s\<lparr>step := StateDot\<rparr>, scanContinue)
      else if c = CHR ''e'' \<or> c = CHR ''E'' then (s\<lparr>step := StateE\<rparr>, scanContinue)
      else stateEndValue s c)"

definition state1 :: "scanner \<Rightarrow> char \<Rightarrow> scanner \<times> scan_code" where
  "state1 s c = (if isDigit c then (s\<lparr>step := State1\<rparr>, scanContinue) else state0 s c)"

definition stateNeg :: "scanner \<Rightarrow> char \<Rightarrow> scanner \<times> scan_code" where
  "stateNeg s c =
     (if c = CHR ''0'' then (s\<lparr>step := State0\<rparr>, scanContinue)
      else if isDigit c then (s\<lparr>step := State1\<rparr>, scanContinue)
      else scanner_error s)"

definition scanner_step :: "scanner \<Rightarrow> char \<Rightarrow> scanner \<times> scan_code" where
  "scanner_step s c =
     (case step s of
        StateBeginValueOrEmpty \<Rightarrow> stateBeginValueOrEmpty s c
      | StateBeginValue \<Rightarrow> stateBeginValue s c
      | StateBeginStringOrEmpty \<Rightarrow> stateBeginStringOrEmpty s c
      | StateBeginString \<Rightarrow> stateBeginString s c
      | StateEndValue \<Rightarrow> stateEndValue s c
      | StateEndTop \<Rightarrow> stateEndTop s c
      | StateInString \<Rightarrow> stateInString s c
      | StateInStringEsc \<Rightarrow> stateInStringEsc s c
      | StateInStringEscU \<Rightarrow> expect (isHex c) StateInStringEscU1 s
      | StateInStringEscU1 \<Rightarrow> expect (isHex c) StateInStringEscU12 s
      | StateInStringEscU12 \<Rightarrow> expect (isHex c) StateInStringEscU123 s
      | StateInStringEscU123 \<Rightarrow> expect (isHex c) StateInString s
      | StateNeg \<Rightarrow> stateNeg s c
      | State1 \<Rightarrow> state1 s c
      | State0 \<Rightarrow> state0 s c
      | StateDot \<Rightarrow> expect (isDigit c) StateDot0 s
      | StateDot0 \<Rightarrow> stateDot0 s c
      | StateE \<Rightarrow> stateE s c
      | StateESign \<Rightarrow> stateESign s c
      | StateE0 \<Rightarrow> stateE0 s c
      | StateT \<Rightarrow> expect (c = CHR ''r'') StateTr s
      | StateTr \<Rightarrow> expect (c = CHR ''u'') StateTru s
      | StateTru \<Rightarrow> expect (c = CHR ''e'') StateEndValue s
      | StateF \<Rightarrow> expect (c = CHR ''a'') StateFa s
      | StateFa \<Rightarrow> expect (c = CHR ''l'') StateFal s
      | StateFal \<Rightarrow> expect (c = CHR ''s'') StateFals s
      | StateFals \<Rightarrow> expect (c = CHR ''e'') StateEndValue s
      | StateN \<Rightarrow> expect (c = CHR ''u'') StateNu s
      | StateNu \<Rightarrow> expect (c = CHR ''l'') StateNul s
      | StateNul \<Rightarrow> expect (c = CHR ''l'') StateEndValue s
      | StateError \<Rightarrow> (s, scanError))"

definition scanner_eof :: "scanner \<Rightarrow> scan_code" where
  "scanner_eof s =
     (if step s = StateError then scanError
      else if endTop s then scanEnd
      else (let s' = fst (scanner_step s CHR '' '')
            in if endTop s' then scanEnd else scanError))"

definition newline :: "string \<Rightarrow> string \<Rightarrow> int \<Rightarrow> string" where
  "newline prefix indent depth = [CHR 0x0A] @ prefix @ concat (replicate (nat depth) indent)"

fun Indent_loop ::
  "string \<Rightarrow> string \<Rightarrow> scanner \<Rightarrow> bool \<Rightarrow> int \<Rightarrow> string \<Rightarrow> string \<Rightarrow> scanner \<times> string" where
  "Indent_loop prefix indent scan needIndent depth dst [] = (scan, dst)"
| "Indent_loop prefix indent scan needIndent depth dst (c # src) =
     (case scanner_step scan c of (scan', v) \<Rightarrow>
        if v = scanSkipSpace then Indent_loop prefix indent scan' needIndent depth dst src
        else if v = scanError then (scan', dst)
        else
          (let bump = (needIndent \<and> v \<noteq> scanEndObject \<and> v \<noteq> scanEndArray);
               needIndent1 = (if bump then False else needIndent);
               depth1 = (if bump then depth + 1 else depth);
               dst1 = (if bump then dst @ newline prefix indent depth1 else dst)
           in if v = scanContinue
              then Indent_loop prefix indent scan' needIndent1 depth1 (dst1 @ [c]) src
              else if c = CHR ''{'' \<or> c = CHR ''[''
              then Indent_loop prefix indent scan' True depth1 (dst1 @ [c]) src
              else if c = CHR '',''
              then Indent_loop prefix indent scan' needIndent1 depth1
                     (dst1 @ [c] @ newline prefix indent depth1) src
              else if c = CHR '':''
              then Indent_loop prefix indent scan' needIndent1 depth1 (dst1 @ [c, CHR '' '']) src
              else if c = CHR ''}'' \<or> c = CHR '']''
              then (if needIndent1
                    then Indent_loop prefix indent scan' False depth1 (dst1 @ [c]) src
                    else Indent_loop prefix indent scan' needIndent1 (depth1 - 1)
                           (dst1 @ newline prefix indent (depth1 - 1) @ [c]) src)
              else Indent_loop prefix indent scan' needIndent1 depth1 (dst1 @ [c]) src))"

definition encoding_json_Indent :: "string \<Rightarrow> string \<Rightarrow> string \<Rightarrow> error + string" where
  "encoding_json_Indent src prefix indent =
     (case Indent_loop prefix indent newScanner False 0 [] src of (scan, dst) \<Rightarrow>
        if scanner_eof scan = scanError then Inl (Err ''json: syntax error'') else Inr dst)"

text \<open>
  A reader of JSON texts into trees, used to say what a buffer parses to: objects keep
  their members in order, strings keep their bytes as written (escapes are not
  decoded), numbers keep their text. With the validity check in front it stands for
  \<^verbatim>\<open>json.Unmarshal\<close> into a destination that accepts any document.
\<close>

datatype json =
    JObject "(string \<times> json) list"
  | JArray "json list"
  | JString string
  | JNumber string
  | JBool bool
  | JNull

fun read_string :: "string \<Rightarrow> (string \<times> string) option" where
  "read_string [] = None"
| "read_string (c # cs) =
     (if c = CHR 0x22 then Some ([], cs)
      else if c = CHR 0x5C
      then (case cs of
              [] \<Rightarrow> None
            | d # ds \<Rightarrow> map_option (\<lambda>(s, r). (c # d # s, r)) (read_string ds))
      else map_option (\<lambda>(s, r). (c # s, r)) (read_string cs))"

definition isNumberChar :: "char \<Rightarrow> bool" where
  "isNumberChar c = (isDigit c \<or> c \<in> set ''+-.eE'')"

fun read_value :: "nat \<Rightarrow> string \<Rightarrow> (json \<times> string) option"
  and read_members :: "nat \<Rightarrow> string \<Rightarrow> ((string \<times> json) list \<times> string) option"
  and read_elements :: "nat \<Rightarrow> string \<Rightarrow> (json list \<times> string) option" where
  "read_value 0 s = None"
| "read_value (Suc n) s =
     (case dropWhile isSpace s of
        [] \<Rightarrow> None
      | c # cs \<Rightarrow>
          if c = CHR ''{'' then
            (case dropWhile isSpace cs of
               [] \<Rightarrow> None
             | d # ds \<Rightarrow>
                 if d = CHR ''}'' then Some (JObject [], ds)
                 else map_option (\<lambda>(ms, r). (JObject ms, r)) (read_members n (d # ds)))
          else if c = CHR ''['' then
            (case dropWhile isSpace cs of
               [] \<Rightarrow> None
             | d # ds \<Rightarrow>
                 if d = CHR '']'' then Some (JArray [], ds)
                 else map_option (\<lambda>(es, r). (JArray es, r)) (read_elements n (d # ds)))
          else if c = CHR 0x22 then map_option (\<lambda>(str, r). (JString str, r)) (read_string cs)
          else if take 4 (c # cs) = ''true'' then Some (JBool True, drop 4 (c # cs))
          else if take 5 (c # cs) = ''false'' then Some (JBool False, drop 5 (c # cs))
          else if take 4 (c # cs) = ''null'' then Some (JNull, drop 4 (c # cs))
          else if isNumberChar c
          then Some (JNumber (takeWhile isNumberChar (c # cs)), dropWhile isNumberChar (c # cs))
          else None)"
| "read_members 0 s = None"
| "read_members (Suc n) s =
     (case dropWhile isSpace s of
        [] \<Rightarrow> None
      | c # cs \<Rightarrow>
          if c \<noteq> CHR 0x22 then None
          else (case read_string cs of
                  None \<Rightarrow> None
                | Some (key, r1) \<Rightarrow>
                    (case dropWhile isSpace r1 of
                       [] \<Rightarrow> None
                     | d # ds \<Rightarrow>
                         if d \<noteq> CHR '':'' then None
                         else (case read_value n ds of
                                 None \<Rightarrow> None
                               | Some (v, r2) \<Rightarrow>
                                   (case dropWhile isSpace r2 of
                                      [] \<Rightarrow> None
                                    | e # es \<Rightarrow>
                                        if e = CHR ''}'' then Some ([(key, v)], es)
                                        else if e = CHR '',''
                                        then map_option (\<lambda>(ms, r). ((key, v) # ms, r))
                                               (read_members n es)
                                        else None)))))"
| "read_elements 0 s = None"
| "read_elements (Suc n) s =
     (case read_value n s of
        None \<Rightarrow> None
      | Some (v, r) \<Rightarrow>
          (case dropWhile isSpace r of
             [] \<Rightarrow> None
           | e # es \<Rightarrow>
               if e = CHR '']'' then Some ([v], es)
               else if e = CHR '','' then map_option (\<lambda>(vs, r'). (v # vs, r')) (read_elements n es)
               else None))"

definition json_read :: "string \<Rightarrow> json option" where
  "json_read s =
     (case read_value (Suc (length s)) s of
        None \<Rightarrow> None
      | Some (v, r) \<Rightarrow> if dropWhile isSpace r = [] then Some v else None)"

text \<open>
  \<^verbatim>\<open>checkValid\<close> of \<^verbatim>\<open>scanner.go\<close>: the scanner steps through all bytes and must end
  after a complete top-level value. \<^verbatim>\<open>json.Unmarshal\<close> checks the data this way first and
  reads it only then.
\<close>

fun checkValid_loop :: "scanner \<Rightarrow> string \<Rightarrow> bool" where
  "checkValid_loop scan [] = (scanner_eof scan \<noteq> scanError)"
| "checkValid_loop scan (c # data) =
     (case scanner_step scan c of (scan', v) \<Rightarrow>
        if v = scanError then False else checkValid_loop scan' data)"

definition checkValid :: "string \<Rightarrow> bool" where
  "checkValid data = checkValid_loop newScanner data"

definition encoding_json_Unmarshal :: "string \<Rightarrow> error + json" where
  "encoding_json_Unmarshal data =
     (if \<not> checkValid data then Inl (Err ''json: syntax error'')
      else (case json_read data of
              None \<Rightarrow> Inl (Err ''json: syntax error'')
            | Some v \<Rightarrow> Inr v))"

text \<open>
  \<^verbatim>\<open>json.Marshal\<close> on the values of inline fields, for integers and booleans (decimal
  digits, \<^verbatim>\<open>true\<close> and \<^verbatim>\<open>false\<close>); other values are outside this model of it.
\<close>

function decimal :: "nat \<Rightarrow> string" where
  "decimal n =
     (if n < 10 then [char_of (48 + n)] else decimal (n div 10) @ [char_of (48 + n mod 10)])"
  by pat_completeness auto
termination
  by (relation "measure id") auto

definition encoding_json_Marshal :: "GoValue \<Rightarrow> error + string" where
  "encoding_json_Marshal v =
     (case v of
        IntV i \<Rightarrow> Inr (if i < 0 then ''-'' @ decimal (nat (- i)) else decimal (nat i))
      | BoolV b \<Rightarrow> Inr (if b then ''true'' else ''false'')
      | _ \<Rightarrow> Inl (Err ''json: value outside the model''))"

subsection \<open>The files of \<^verbatim>\<open>Marshal\<close> on disk\<close>

text \<open>
  \<^verbatim>\<open>Marshal\<close> returns the files and leaves the writing to its caller. \<open>disk files\<close> is
  the file system that holds exactly these files, each at its path: a path reads as the
  data of the last file written there, and a directory lists the names found directly
  below it, a name being a directory when the path goes on after it.
\<close>

definition below :: "string \<Rightarrow> string \<Rightarrow> string option" where
  "below dir p =
     (if take (length dir + 1) p = dir @ ''/'' then Some (drop (length dir + 1) p) else None)"

definition dirents_of :: "JSONFile list \<Rightarrow> string \<Rightarrow> Dirent list" where
  "dirents_of files dir =
     remdups (List.map_filter
       (\<lambda>f. case below dir (Path f) of
               None \<Rightarrow> None
             | Some r \<Rightarrow> Some (Dirent (takeWhile (\<lambda>c. c \<noteq> CHR ''/'') r) (CHR ''/'' \<in> set r)))
       files)"

definition disk :: "JSONFile list \<Rightarrow> filesystem" where
  "disk files =
     \<lparr>ReadFile = (\<lambda>p. case find (\<lambda>f. Path f = p) (rev files) of
                         None \<Rightarrow> IsNotExist
                       | Some f \<Rightarrow> FileBytes (Data f)),
      ReadDirents = (\<lambda>dir. case dirents_of files dir of
                              [] \<Rightarrow> Inl (Err ''no such file or directory'')
                            | ds \<Rightarrow> Inr ds)\<rparr>"

subsection \<open>Example documents\<close>

text \<open>
  An exported, non-embedded struct field with the given Go name and tag; the conflict
  source that reports exactly one path as contested and appends the two versions given
  (every other path it declines and leaves the buffers alone, as
  \<^verbatim>\<open>GitDriver.HandleFile\<close> does); and a conflict source that never reports a file as
  contested but writes a space to the first buffer before it declines.
\<close>

definition exported :: "string \<Rightarrow> (string \<times> string) list \<Rightarrow> StructField" where
  "exported name tag =
     \<lparr>FieldName = name, PkgPath = [], Anonymous = False, FieldType = OtherT, Tag = tag\<rparr>"

definition contested :: "string \<Rightarrow> string \<Rightarrow> string \<Rightarrow> VCSDriver" where
  "contested path ours theirs =
     \<lparr>Init = None,
      HandleFile = (\<lambda>p b ib. if p = path then Inr (True, b @ ours, ib @ theirs)
                            else Inr (False, b, ib))\<rparr>"


text \<open>
  \<open>declines vcsDriver path state\<close>: no driver is set, or the driver, asked about the path
  in this state, leaves the file to the plain read and the buffers as they are.
  \<open>keeps_identical vcsDriver (path, state)\<close>: no driver is set, or the driver, asked about
  the path in this state, does not answer \<^verbatim>\<open>true\<close> and leaves the two buffers equal to
  each other (it wrote nothing, or the same to both).
\<close>

definition declines :: "VCSDriver option \<Rightarrow> string \<Rightarrow> decodeState \<Rightarrow> bool" where
  "declines vcsDriver path state =
     (case vcsDriver of
        None \<Rightarrow> True
      | Some d \<Rightarrow>
          HandleFile d path (buf state) (incomingBuf state) =
            Inr (False, buf state, incomingBuf state))"


text \<open>The files of the documents used as examples below.\<close>

definition splice_files :: "JSONFile list" where
  \<open>splice_files = [JSONFile ''/D/entry.json'' ''{"a":1}'', JSONFile ''/D/b/index.json'' ''{"c":2}'']\<close>

definition empty_entry_files :: "JSONFile list" where
  \<open>empty_entry_files = [JSONFile ''/D/x/index.json'' ''{}'', JSONFile ''/D/y/index.json'' ''{}'']\<close>

definition conflict_files :: "JSONFile list" where
  \<open>conflict_files = [JSONFile ''/D/entry.json'' ''{"a":0}'']\<close>

text \<open>
  A document with one inline field and two fields tagged \<^verbatim>\<open>dfjson:"distributable"\<close>,
  each a map with one entry that points to a struct:
  \<^verbatim>\<open>&Doc{A: 1, Items: {"k": &Item{F: 1}}, Others: {"j": &Item{F: 2}}}\<close>.
\<close>

definition items_doc :: GoValue where
  "items_doc =
     PtrV (StructV
       [(exported ''A'' [], IntV 1),
        (exported ''Items'' [(''dfjson'', ''distributable'')],
           MapV [(Sprintf_v ''k'', PtrV (StructV [(exported ''F'' [], IntV 1)]))]),
        (exported ''Others'' [(''dfjson'', ''distributable'')],
           MapV [(Sprintf_v ''j'', PtrV (StructV [(exported ''F'' [], IntV 2)]))])])"

section \<open>Properties\<close>

subsection \<open>Where \<^verbatim>\<open>truncateLastBracket\<close> cuts\<close>

text \<open>
  A byte \<^verbatim>\<open>}\<close> is never part of a longer UTF-8 sequence, so the rune-wise scan finds
  exactly the last byte \<^verbatim>\<open>}\<close> of the primary buffer.
\<close>

lemma of_char_brace: "(of_char c = (125::nat)) = (c = CHR ''}'')"
proof -
  have "(of_char c = (of_char (CHR ''}'') :: nat)) = (c = CHR ''}'')"
    by (rule of_char_eq_iff)
  then show ?thesis by simp
qed

lemma mod_window:
  fixes b :: nat
  assumes "m * k \<le> b" and "b < m * k + m"
  shows "b mod m = b - m * k"
proof -
  from assms(1) have "b = (b - m * k) + m * k" by simp
  then have "b mod m = ((b - m * k) + m * k) mod m" by simp
  also have "\<dots> = (b - m * k) mod m" by (rule mod_mult_self2)
  also from assms have "\<dots> = b - m * k" by simp
  finally show ?thesis .
qed

lemma first_Lead:
  assumes "first b = Lead sz lo hi"
  shows "128 \<le> lo \<and> hi \<le> 191 \<and>
         ((sz = 2 \<and> 2 \<le> b mod 32) \<or>
          (sz = 3 \<and> (1 \<le> b mod 16 \<or> 160 \<le> lo)) \<or>
          (sz = 4 \<and> (1 \<le> b mod 8 \<or> 144 \<le> lo)))"
proof -
  from assms consider
      (two) "194 \<le> b" "b < 224" "sz = 2" "lo = 128" "hi \<le> 191"
    | (three0) "sz = 3" "lo = 160" "hi \<le> 191"
    | (three) "224 < b" "b < 240" "sz = 3" "128 \<le> lo" "hi \<le> 191"
    | (four0) "sz = 4" "lo = 144" "hi \<le> 191"
    | (four) "240 < b" "b < 245" "sz = 4" "lo = 128" "hi \<le> 191"
    by (auto simp: first_def split: if_splits)
  then show ?thesis
  proof cases
    case two
    then have "b mod 32 = b - 32 * 6" by (intro mod_window) simp_all
    with two show ?thesis by auto
  next
    case three0
    then show ?thesis by simp
  next
    case three
    then have "b mod 16 = b - 16 * 14" by (intro mod_window) simp_all
    with three show ?thesis by auto
  next
    case four0
    then show ?thesis by simp
  next
    case four
    then have "b mod 8 = b - 8 * 30" by (intro mod_window) simp_all
    with four show ?thesis by auto
  qed
qed


lemma DecodeRune_cases:
  assumes "DecodeRune p = (r, n)" and "p \<noteq> []"
  obtains (ascii) "r = of_char (p ! 0)" "of_char (p ! 0) < (128::nat)" "n = 1"
    | (error) "r = RuneError" "(128::nat) \<le> of_char (p ! 0)" "n = 1"
    | (multi) "128 \<le> r" "(128::nat) \<le> of_char (p ! 0)" "2 \<le> n" "n \<le> length p"
        "\<forall>k. 0 < k \<and> k < n \<longrightarrow> (128::nat) \<le> of_char (p ! k)"
proof (cases "first (of_char (p ! 0))")
  case ASCII
  then have "of_char (p ! 0) < (128::nat)" by (auto simp: first_def split: if_splits)
  with assms ASCII ascii show ?thesis by (auto simp: DecodeRune_def)
next
  case Invalid
  then have "(128::nat) \<le> of_char (p ! 0)" by (auto simp: first_def split: if_splits)
  with assms Invalid error show ?thesis by (auto simp: DecodeRune_def)
next
  case (Lead sz lo hi)
  note L = first_Lead [OF Lead]
  from Lead have p0: "(128::nat) \<le> of_char (p ! 0)" by (auto simp: first_def split: if_splits)
  let ?p0 = "of_char (p ! 0) :: nat" and ?b1 = "of_char (p ! 1) :: nat"
  let ?b2 = "of_char (p ! 2) :: nat" and ?b3 = "of_char (p ! 3) :: nat"
  have m64: "\<And>b::nat. 160 \<le> b \<Longrightarrow> b \<le> 191 \<Longrightarrow> 32 \<le> b mod 64"
    "\<And>b::nat. 144 \<le> b \<Longrightarrow> b \<le> 191 \<Longrightarrow> 16 \<le> b mod 64"
  proof -
    fix b :: nat
    { assume "160 \<le> b" "b \<le> 191"
      then have "b mod 64 = b - 64 * 2" by (intro mod_window) simp_all
      with \<open>160 \<le> b\<close> show "32 \<le> b mod 64" by simp }
    { assume "144 \<le> b" "b \<le> 191"
      then have "b mod 64 = b - 64 * 2" by (intro mod_window) simp_all
      with \<open>144 \<le> b\<close> show "16 \<le> b mod 64" by simp }
  qed
  from assms Lead consider
      (e) "r = RuneError" "n = 1"
    | (w2) "sz = 2" "n = 2" "2 \<le> length p" "lo \<le> ?b1" "?b1 \<le> hi"
           "r = (?p0 mod 32) * 64 + ?b1 mod 64"
    | (w3) "sz = 3" "n = 3" "3 \<le> length p" "lo \<le> ?b1" "?b1 \<le> hi" "128 \<le> ?b2"
           "r = (?p0 mod 16) * 4096 + (?b1 mod 64) * 64 + ?b2 mod 64"
    | (w4) "sz = 4" "n = 4" "4 \<le> length p" "lo \<le> ?b1" "?b1 \<le> hi" "128 \<le> ?b2" "128 \<le> ?b3"
           "r = (?p0 mod 8) * 262144 + (?b1 mod 64) * 4096 + (?b2 mod 64) * 64 + ?b3 mod 64"
    using L by (auto simp: DecodeRune_def Let_def split: if_splits)
  then show ?thesis
  proof cases
    case e
    with p0 error show ?thesis by simp
  next
    case w2
    with L have "2 \<le> ?p0 mod 32" by auto
    then have "2 * 64 \<le> (?p0 mod 32) * 64" by (rule mult_le_mono1)
    with w2 have r: "128 \<le> r" by simp
    have "(128::nat) \<le> of_char (p ! k)" if "0 < k \<and> k < n" for k
    proof -
      from that w2 have "k = 1" by arith
      with w2 L show ?thesis by auto
    qed
    then have "\<forall>k. 0 < k \<and> k < n \<longrightarrow> (128::nat) \<le> of_char (p ! k)" by blast
    with r p0 w2 multi show ?thesis by simp
  next
    case w3
    from w3 L have "1 \<le> ?p0 mod 16 \<or> 32 \<le> ?b1 mod 64"
      using m64(1) [of ?b1] by auto
    then have "128 \<le> (?p0 mod 16) * 4096 + (?b1 mod 64) * 64" by auto
    with w3 have r: "128 \<le> r" by simp
    have "(128::nat) \<le> of_char (p ! k)" if "0 < k \<and> k < n" for k
    proof -
      from that w3 have "k = 1 \<or> k = 2" by arith
      with w3 L show ?thesis by auto
    qed
    then have "\<forall>k. 0 < k \<and> k < n \<longrightarrow> (128::nat) \<le> of_char (p ! k)" by blast
    with r p0 w3 multi show ?thesis by simp
  next
    case w4
    from w4 L have "1 \<le> ?p0 mod 8 \<or> 16 \<le> ?b1 mod 64"
      using m64(2) [of ?b1] by auto
    then have "128 \<le> (?p0 mod 8) * 262144 + (?b1 mod 64) * 4096" by auto
    with w4 have r: "128 \<le> r" by simp
    have "(128::nat) \<le> of_char (p ! k)" if "0 < k \<and> k < n" for k
    proof -
      from that w4 have "k = 1 \<or> k = 2 \<or> k = 3" by arith
      with w4 L show ?thesis by auto
    qed
    then have "\<forall>k. 0 < k \<and> k < n \<longrightarrow> (128::nat) \<le> of_char (p ! k)" by blast
    with r p0 w4 multi show ?thesis by simp
  qed
qed


lemma DecodeRune_step:
  assumes "i < length data" and "DecodeRune (drop i data) = (r, n)"
  shows "0 < n \<and> (r = 125) = (data ! i = CHR ''}'') \<and>
         (\<forall>j. i < j \<and> j < i + n \<and> j < length data \<longrightarrow> data ! j \<noteq> CHR ''}'')"
proof -
  let ?p = "drop i data"
  from assms(1) have ne: "?p \<noteq> []" by simp
  from assms(1) have hd: "?p ! 0 = data ! i" by simp
  have nb: "c \<noteq> CHR ''}''" if "(128::nat) \<le> of_char c" for c
    using that by auto
  from assms(2) ne show ?thesis
  proof (cases rule: DecodeRune_cases)
    case ascii
    then show ?thesis by (auto simp: hd of_char_brace)
  next
    case error
    from nb [OF error(2)] error show ?thesis by (auto simp: hd RuneError_def)
  next
    case multi
    have "data ! j \<noteq> CHR ''}''" if "i < j \<and> j < i + n \<and> j < length data" for j
    proof -
      from that have "0 < j - i \<and> j - i < n" by arith
      with multi(5) have "(128::nat) \<le> of_char (?p ! (j - i))" by blast
      moreover from that have "?p ! (j - i) = data ! j" by simp
      ultimately show ?thesis using nb by metis
    qed
    moreover from nb [OF multi(2)] multi(1) have "(r = 125) = (data ! i = CHR ''}'')"
      by (simp add: hd)
    ultimately show ?thesis using multi(3) by auto
  qed
qed

lemma lastBracketScan_result:
  "(lastBracketScan data i l = l \<and>
      (\<forall>j. i \<le> j \<and> j < length data \<longrightarrow> data ! j \<noteq> CHR ''}'')) \<or>
   (\<exists>k. lastBracketScan data i l = int k \<and> i \<le> k \<and> k < length data \<and>
        data ! k = CHR ''}'' \<and>
        (\<forall>j. k < j \<and> j < length data \<longrightarrow> data ! j \<noteq> CHR ''}''))"
proof (induction data i l rule: lastBracketScan.induct)
  case (1 data i l)
  show ?case
  proof (cases "i < length data")
    case False
    then show ?thesis by (auto simp: lastBracketScan.simps [of data i l])
  next
    case True
    obtain r n where rn: "DecodeRune (drop i data) = (r, n)" by (cases "DecodeRune (drop i data)")
    note st = DecodeRune_step [OF True rn]
    let ?l = "if r = 125 then int i else l"
    from True rn have unf: "lastBracketScan data i l = lastBracketScan data (i + n) ?l"
      by (simp add: lastBracketScan.simps [of data i l])
    from "1.IH" [OF True rn [symmetric]] consider
        (none) "lastBracketScan data (i + n) ?l = ?l"
               "\<forall>j. i + n \<le> j \<and> j < length data \<longrightarrow> data ! j \<noteq> CHR ''}''"
      | (found) k where "lastBracketScan data (i + n) ?l = int k" "i + n \<le> k" "k < length data"
               "data ! k = CHR ''}''"
               "\<forall>j. k < j \<and> j < length data \<longrightarrow> data ! j \<noteq> CHR ''}''"
      by blast
    then show ?thesis
    proof cases
      case none
      have later: "data ! j \<noteq> CHR ''}''" if "i < j \<and> j < length data" for j
      proof (cases "j < i + n")
        case True
        with that st show ?thesis by blast
      next
        case False
        with that none(2) show ?thesis by simp
      qed
      show ?thesis
      proof (cases "r = 125")
        case True
        with none unf have "lastBracketScan data i l = int i" by simp
        moreover from True st have "data ! i = CHR ''}''" by simp
        ultimately show ?thesis using later \<open>i < length data\<close> by blast
      next
        case False
        with none unf have "lastBracketScan data i l = l" by simp
        moreover from False st have "data ! i \<noteq> CHR ''}''" by simp
        ultimately have "lastBracketScan data i l = l \<and>
          (\<forall>j. i \<le> j \<and> j < length data \<longrightarrow> data ! j \<noteq> CHR ''}'')"
          using later by (metis le_neq_implies_less)
        then show ?thesis by blast
      qed
    next
      case found
      with unf have "lastBracketScan data i l = int k \<and> i \<le> k" by simp
      with found show ?thesis by blast
    qed
  qed
qed

lemma lastBracketScan_none:
  assumes "CHR ''}'' \<notin> set data"
  shows "lastBracketScan data 0 (- 1) = - 1"
proof -
  from assms have "\<And>k. k < length data \<Longrightarrow> data ! k \<noteq> CHR ''}''" by (metis nth_mem)
  with lastBracketScan_result [of data 0 "- 1"] show ?thesis by blast
qed

lemma lastBracketScan_last:
  assumes "CHR ''}'' \<notin> set suf"
  shows "lastBracketScan (pre @ CHR ''}'' # suf) 0 (- 1) = int (length pre)"
proof -
  let ?d = "pre @ CHR ''}'' # suf"
  have at: "?d ! length pre = CHR ''}''" and len: "length pre < length ?d" by simp_all
  have after: "?d ! j \<noteq> CHR ''}''" if "length pre < j" "j < length ?d" for j
  proof -
    from that have "?d ! j = suf ! (j - length pre - 1)" by (simp add: nth_append)
    moreover from that have "j - length pre - 1 < length suf" by simp
    ultimately show ?thesis using assms by (metis nth_mem)
  qed
  from lastBracketScan_result [of ?d 0 "- 1"] at len
  obtain k where k: "lastBracketScan ?d 0 (- 1) = int k" "k < length ?d" "?d ! k = CHR ''}''"
     "\<forall>j. k < j \<and> j < length ?d \<longrightarrow> ?d ! j \<noteq> CHR ''}''"
    by blast
  have "k = length pre"
  proof (rule ccontr)
    assume "k \<noteq> length pre"
    then consider "k < length pre" | "length pre < k" by arith
    then show False
    proof cases
      case 1
      with k(4) len at show False by blast
    next
      case 2
      with after k(2,3) show False by blast
    qed
  qed
  with k(1) show ?thesis by simp
qed

lemma truncateLastBracket_none:
  assumes "CHR ''}'' \<notin> set (buf state)"
  shows "truncateLastBracket state = Inr (False, state)"
  using lastBracketScan_none [OF assms] by (simp add: truncateLastBracket_def)

lemma truncateLastBracket_cut:
  assumes "buf state = pre @ CHR ''}'' # suf" and "CHR ''}'' \<notin> set suf"
  shows "truncateLastBracket state =
           (if length (incomingBuf state) < length pre
            then Inl (Panic ''bytes.Buffer: truncation out of range'')
            else Inr (True, state\<lparr>buf := pre,
                                  incomingBuf := take (length pre) (incomingBuf state)\<rparr>))"
  using lastBracketScan_last [OF assms(2), of pre] assms(1)
  by (simp add: truncateLastBracket_def Truncate_def)

text \<open>
  C10 (as stated): in every state whose buffers differ in length the incoming buffer is
  cut at the offset of the last \<^verbatim>\<open>}\<close> of the primary buffer. It is not cut when it is
  shorter than that offset: \<^verbatim>\<open>Truncate\<close> panics. Such a state is reached when a contested
  entry file has a longer ``ours'' than ``theirs'' and the directory has a subdirectory.
\<close>

theorem truncate_short_incoming_counterexample:
  \<open>truncateLastBracket \<lparr>buf = ''{"a":1,"b":2}'', incomingBuf = ''{}'', hasMergeConflict = True\<rparr> =
     Inl (Panic ''bytes.Buffer: truncation out of range'') \<and>
   decode 2 (disk [JSONFile ''/D/entry.json'' ''{"a":0}'', JSONFile ''/D/c/index.json'' ''{}''])
     (Some (contested ''/D/entry.json'' ''{"a":1,"b":2}'' ''{}'')) ''/D/entry.json'' zeroState =
     Inl (Panic ''bytes.Buffer: truncation out of range'')\<close>
  by code_simp

text \<open>
  C10 (amended): \<^verbatim>\<open>truncateLastBracket\<close> finds the last \<^verbatim>\<open>}\<close> in the primary buffer
  alone and, whenever the incoming buffer is at least as long as that offset, cuts both
  buffers there, wherever the last \<^verbatim>\<open>}\<close> of the incoming buffer lies.
\<close>

theorem truncate_primary_driven:
  assumes "buf state = pre @ CHR ''}'' # suf" and "CHR ''}'' \<notin> set suf"
    and "length pre \<le> length (incomingBuf state)"
  shows "truncateLastBracket state =
           Inr (True, state\<lparr>buf := pre, incomingBuf := take (length pre) (incomingBuf state)\<rparr>)"
  using truncateLastBracket_cut [OF assms(1,2)] assms(3) by simp

theorem truncate_primary_driven_witness:
  \<open>buf \<lparr>buf = ''{"a":1}'', incomingBuf = ''{"a":2,"z":{}}'', hasMergeConflict = True\<rparr> =
     ''{"a":1'' @ CHR ''}'' # [] \<and>
   CHR ''}'' \<notin> set [] \<and>
   length ''{"a":1'' \<le>
     length (incomingBuf \<lparr>buf = ''{"a":1}'', incomingBuf = ''{"a":2,"z":{}}'',
                           hasMergeConflict = True\<rparr>) \<and>
   truncateLastBracket \<lparr>buf = ''{"a":1}'', incomingBuf = ''{"a":2,"z":{}}'', hasMergeConflict = True\<rparr> =
     Inr (True, \<lparr>buf = ''{"a":1'', incomingBuf = ''{"a":2'', hasMergeConflict = True\<rparr>)\<close>
  using truncate_primary_driven
    [of \<open>\<lparr>buf = ''{"a":1}'', incomingBuf = ''{"a":2,"z":{}}'', hasMergeConflict = True\<rparr>\<close>
        \<open>''{"a":1''\<close> "[]"]
  by simp

subsection \<open>Running the decoder\<close>

lemma decode_dirList_filter:
  "decode_dirList fuel fs vcs topDir dirList hw hc st =
   decode_dirList fuel fs vcs topDir (filter IsDir dirList) hw hc st"
  by (induction dirList arbitrary: hw hc st) (auto simp: Let_def split: sum.splits)





lemma readEntryFile_file:
  assumes "declines vcs path st" and "ReadFile fs path = FileBytes b"
  shows "readEntryFile fs vcs path st = Inr (True, True, WriteAll b st)"
  using assms by (auto simp: declines_def readEntryFile_def split: option.splits)

lemma readEntryFile_missing:
  assumes "declines vcs path st" and "ReadFile fs path = IsNotExist"
  shows "readEntryFile fs vcs path st = Inr (False, False, st)"
  using assms by (auto simp: declines_def readEntryFile_def split: option.splits)

lemma readEntryFile_contested:
  assumes "HandleFile d path (buf st) (incomingBuf st) = Inr (True, ours, theirs)"
  shows "readEntryFile fs (Some d) path st =
           Inr (True, True, st\<lparr>buf := ours, incomingBuf := theirs, hasMergeConflict := True\<rparr>)"
  using assms by (simp add: readEntryFile_def)

lemma decode_dirList_no_dirs:
  assumes "filter IsDir dirList = []"
  shows "decode_dirList fuel fs vcs topDir dirList hw hc st = Inr (hc, st)"
  using decode_dirList_filter [of fuel fs vcs topDir dirList hw hc st] assms by simp

lemma decode_file_leaf:
  assumes "declines vcs path st" and "ReadFile fs path = FileBytes b"
    and "ReadDirents fs (ReplaceAll_backslash (filepath_Dir path)) = Inr dirList"
    and "filter IsDir dirList = []"
  shows "decode (Suc fuel) fs vcs path st = Inr (WriteAll b st)"
  using readEntryFile_file [OF assms(1,2)] assms(3) decode_dirList_no_dirs [OF assms(4)]
  by simp

lemma decode_dirList_step:
  assumes "beforeField hw hc st = Inr (hc1, st1)"
    and "decode fuel fs vcs (topDir @ ''/'' @ ReplaceAll_backslash name @ ''/index.json'')
           (WriteStringAll ([CHR 0x22] @ name @ [CHR 0x22] @ '':'') st1) = Inr st3"
  shows "decode_dirList fuel fs vcs topDir (Dirent name True # rest) hw hc st =
           decode_dirList fuel fs vcs topDir rest True hc1 st3"
  using assms by (simp add: Let_def)

lemma decode_node:
  assumes "readEntryFile fs vcs path st = Inr (opened, closed, st1)"
    and "ReadDirents fs (ReplaceAll_backslash (filepath_Dir path)) = Inr dirList"
    and "decode_dirList fuel fs vcs (ReplaceAll_backslash (filepath_Dir path))
           (filter IsDir dirList) False closed
           (if opened then st1 else WriteRuneAll CHR ''{'' st1) = Inr (closed', st3)"
  shows "decode (Suc fuel) fs vcs path st =
           Inr (if closed' then st3 else WriteRuneAll CHR ''}'' st3)"
proof -
  from assms(3) have "decode_dirList fuel fs vcs (ReplaceAll_backslash (filepath_Dir path))
           dirList False closed
           (if opened then st1 else WriteRuneAll CHR ''{'' st1) = Inr (closed', st3)"
    by (simp add: decode_dirList_filter [of _ _ _ _ dirList])
  with assms(1,2) show ?thesis by (cases opened; cases closed') (simp_all add: Let_def)
qed




text \<open>
  C3, splice correctness: with an entry file \<^verbatim>\<open>{"a":1}\<close> and exactly one subdirectory
  \<^verbatim>\<open>b\<close> whose \<^verbatim>\<open>index.json\<close> is \<^verbatim>\<open>{"c":2}\<close> (and which has no subdirectory of its
  own), and with no driver or one that leaves both files to the plain read and the
  buffers as they are, \<^verbatim>\<open>decode\<close> returns, at every depth budget of two or more, with
  both buffers equal to \<^verbatim>\<open>{"a":1,"b":{"c":2}}\<close>, which reads as an object with the two
  keys \<^verbatim>\<open>a\<close> and \<^verbatim>\<open>b\<close>.
\<close>

theorem splice_correctness:
  assumes vcs: "declines vcsDriver path zeroState"
      \<open>declines vcsDriver (ReplaceAll_backslash (filepath_Dir path) @ ''/b/index.json'')
         \<lparr>buf = ''{"a":1,"b":'', incomingBuf = ''{"a":1,"b":'', hasMergeConflict = False\<rparr>\<close>
    and entry: \<open>ReadFile fs path = FileBytes ''{"a":1}''\<close>
    and top: "ReadDirents fs (ReplaceAll_backslash (filepath_Dir path)) = Inr dirList"
      "filter IsDir dirList = [Dirent ''b'' True]"
    and child: \<open>ReadFile fs (ReplaceAll_backslash (filepath_Dir path) @ ''/b/index.json'')
                 = FileBytes ''{"c":2}''\<close>
    and leaf: "ReadDirents fs (ReplaceAll_backslash (filepath_Dir
                 (ReplaceAll_backslash (filepath_Dir path) @ ''/b/index.json''))) = Inr dirList'"
      "filter IsDir dirList' = []"
  shows \<open>decode (Suc (Suc fuel)) fs vcsDriver path zeroState =
           Inr \<lparr>buf = ''{"a":1,"b":{"c":2}}'', incomingBuf = ''{"a":1,"b":{"c":2}}'',
                hasMergeConflict = False\<rparr> \<and>
         encoding_json_Unmarshal ''{"a":1,"b":{"c":2}}'' =
           Inr (JObject [(''a'', JNumber ''1''), (''b'', JObject [(''c'', JNumber ''2'')])])\<close>
proof -
  define topDir where "topDir = ReplaceAll_backslash (filepath_Dir path)"
  define st1 where \<open>st1 = \<lparr>buf = ''{"a":1}'', incomingBuf = ''{"a":1}'', hasMergeConflict = False\<rparr>\<close>
  define st1c where \<open>st1c = \<lparr>buf = ''{"a":1,'', incomingBuf = ''{"a":1,'', hasMergeConflict = False\<rparr>\<close>
  define st2 where \<open>st2 = \<lparr>buf = ''{"a":1,"b":'', incomingBuf = ''{"a":1,"b":'', hasMergeConflict = False\<rparr>\<close>
  define st3 where \<open>st3 = \<lparr>buf = ''{"a":1,"b":{"c":2}'', incomingBuf = ''{"a":1,"b":{"c":2}'',
                            hasMergeConflict = False\<rparr>\<close>
  have r: "readEntryFile fs vcsDriver path zeroState = Inr (True, True, st1)"
    using readEntryFile_file [OF vcs(1) entry] by (simp add: WriteAll_def zeroState_def st1_def)
  have cut: \<open>truncateLastBracket st1 =
       Inr (True, \<lparr>buf = ''{"a":1'', incomingBuf = ''{"a":1'', hasMergeConflict = False\<rparr>)\<close>
    using truncateLastBracket_cut [of st1 \<open>''{"a":1''\<close> "[]"] by (simp add: st1_def)
  have bf: "beforeField False True st1 = Inr (False, st1c)"
    by (simp add: beforeField_def cut WriteStringAll_def st1c_def)
  have w: "WriteStringAll ([CHR 0x22] @ ''b'' @ [CHR 0x22] @ '':'') st1c = st2"
    by (simp add: WriteStringAll_def st1c_def st2_def)
  have n: "ReplaceAll_backslash ''b'' = ''b''"
    by (simp add: ReplaceAll_backslash_def)
  have ch: "decode (Suc fuel) fs vcsDriver (topDir @ ''/'' @ ReplaceAll_backslash ''b'' @ ''/index.json'')
              (WriteStringAll ([CHR 0x22] @ ''b'' @ [CHR 0x22] @ '':'') st1c) = Inr st3"
    unfolding w n
    using decode_file_leaf [OF vcs(2) child leaf, of fuel]
    by (simp add: topDir_def WriteAll_def st2_def st3_def)
  have loop: "decode_dirList (Suc fuel) fs vcsDriver topDir (filter IsDir dirList) False True
                (if True then st1 else WriteRuneAll CHR ''{'' st1) = Inr (False, st3)"
    unfolding top(2)
    by (simp only: if_True decode_dirList_step [OF bf ch] decode_dirList.simps(1))
  from decode_node [OF r top(1) loop [unfolded topDir_def]]
  have "decode (Suc (Suc fuel)) fs vcsDriver path zeroState =
          Inr (WriteRuneAll CHR ''}'' st3)" by simp
  moreover have \<open>encoding_json_Unmarshal ''{"a":1,"b":{"c":2}}'' =
           Inr (JObject [(''a'', JNumber ''1''), (''b'', JObject [(''c'', JNumber ''2'')])])\<close>
    by code_simp
  ultimately show ?thesis by (simp add: WriteRuneAll_def st3_def)
qed

theorem splice_correctness_witness:
  \<open>declines None ''/D/entry.json'' zeroState \<and>
   ReadFile (disk splice_files) ''/D/entry.json'' = FileBytes ''{"a":1}'' \<and>
   ReadDirents (disk splice_files) ''/D'' = Inr [Dirent ''entry.json'' False, Dirent ''b'' True] \<and>
   ReadFile (disk splice_files) ''/D/b/index.json'' = FileBytes ''{"c":2}'' \<and>
   ReadDirents (disk splice_files) ''/D/b'' = Inr [Dirent ''index.json'' False] \<and>
   decode 2 (disk splice_files) None ''/D/entry.json'' zeroState =
     Inr \<lparr>buf = ''{"a":1,"b":{"c":2}}'', incomingBuf = ''{"a":1,"b":{"c":2}}'',
          hasMergeConflict = False\<rparr>\<close>
proof -
  have d: "ReplaceAll_backslash (filepath_Dir ''/D/entry.json'') = ''/D''"
    "ReplaceAll_backslash (filepath_Dir (''/D'' @ ''/b/index.json'')) = ''/D/b''"
    by code_simp+
  have v: "declines None p st" for p st by (simp add: declines_def)
  have e: \<open>ReadFile (disk splice_files) ''/D/entry.json'' = FileBytes ''{"a":1}''\<close>
    by code_simp
  have t: "ReadDirents (disk splice_files) ''/D'' = Inr [Dirent ''entry.json'' False, Dirent ''b'' True]"
    by code_simp
  have c: \<open>ReadFile (disk splice_files) (''/D'' @ ''/b/index.json'') = FileBytes ''{"c":2}''\<close>
    by code_simp
  have l: "ReadDirents (disk splice_files) ''/D/b'' = Inr [Dirent ''index.json'' False]"
    by code_simp
  have two: "Suc (Suc 0) = 2" by simp
  from splice_correctness [of None "''/D/entry.json''" "disk splice_files"
      "[Dirent ''entry.json'' False, Dirent ''b'' True]" "[Dirent ''index.json'' False]" 0,
      unfolded d two, OF v v e t _ c l]
  have \<open>decode 2 (disk splice_files) None ''/D/entry.json'' zeroState =
     Inr \<lparr>buf = ''{"a":1,"b":{"c":2}}'', incomingBuf = ''{"a":1,"b":{"c":2}}'',
          hasMergeConflict = False\<rparr>\<close> by simp
  with v e t c l show ?thesis by simp
qed

text \<open>
  C8 (as stated): with the entry file missing and exactly the two subdirectories \<^verbatim>\<open>x\<close>
  and \<^verbatim>\<open>y\<close>, each with \<^verbatim>\<open>{}\<close> in its \<^verbatim>\<open>index.json\<close>, the decoder produces
  \<^verbatim>\<open>{"x":{},"y":{}}\<close>. \<^verbatim>\<open>decode\<close> walks the listing of the directory as
  \<^verbatim>\<open>ReadDirents\<close> returns it, unsorted: when \<^verbatim>\<open>y\<close> is listed before \<^verbatim>\<open>x\<close> the result is
  \<^verbatim>\<open>{"y":{},"x":{}}\<close>.
\<close>

theorem empty_entry_counterexample:
  \<open>ReadFile (disk [JSONFile ''/D/y/index.json'' ''{}'', JSONFile ''/D/x/index.json'' ''{}''])
       ''/D/entry.json'' = IsNotExist \<and>
   ReadDirents (disk [JSONFile ''/D/y/index.json'' ''{}'', JSONFile ''/D/x/index.json'' ''{}''])
       ''/D'' = Inr [Dirent ''y'' True, Dirent ''x'' True] \<and>
   decode 2 (disk [JSONFile ''/D/y/index.json'' ''{}'', JSONFile ''/D/x/index.json'' ''{}''])
       None ''/D/entry.json'' zeroState =
     Inr \<lparr>buf = ''{"y":{},"x":{}}'', incomingBuf = ''{"y":{},"x":{}}'',
          hasMergeConflict = False\<rparr>\<close>
  by code_simp

text \<open>
  C8 (amended), empty entry: with the entry file missing and exactly the two
  subdirectories \<^verbatim>\<open>x\<close> and \<^verbatim>\<open>y\<close>, listed in this order, each holding an \<^verbatim>\<open>index.json\<close>
  with \<^verbatim>\<open>{}\<close> (and with no driver or one that leaves the three files to the plain read
  and the buffers as they are), \<^verbatim>\<open>decode\<close> does not fail on the missing file: it
  writes the opening brace itself and returns \<^verbatim>\<open>{"x":{},"y":{}}\<close>.
\<close>

theorem empty_entry:
  assumes vcs: "declines vcsDriver path zeroState"
      \<open>declines vcsDriver (ReplaceAll_backslash (filepath_Dir path) @ ''/x/index.json'')
         \<lparr>buf = ''{"x":'', incomingBuf = ''{"x":'', hasMergeConflict = False\<rparr>\<close>
      \<open>declines vcsDriver (ReplaceAll_backslash (filepath_Dir path) @ ''/y/index.json'')
         \<lparr>buf = ''{"x":{},"y":'', incomingBuf = ''{"x":{},"y":'', hasMergeConflict = False\<rparr>\<close>
    and entry: "ReadFile fs path = IsNotExist"
    and top: "ReadDirents fs (ReplaceAll_backslash (filepath_Dir path)) = Inr dirList"
      "filter IsDir dirList = [Dirent ''x'' True, Dirent ''y'' True]"
    and x: "ReadFile fs (ReplaceAll_backslash (filepath_Dir path) @ ''/x/index.json'')
              = FileBytes ''{}''"
      "ReadDirents fs (ReplaceAll_backslash (filepath_Dir
         (ReplaceAll_backslash (filepath_Dir path) @ ''/x/index.json''))) = Inr dirListX"
      "filter IsDir dirListX = []"
    and y: "ReadFile fs (ReplaceAll_backslash (filepath_Dir path) @ ''/y/index.json'')
              = FileBytes ''{}''"
      "ReadDirents fs (ReplaceAll_backslash (filepath_Dir
         (ReplaceAll_backslash (filepath_Dir path) @ ''/y/index.json''))) = Inr dirListY"
      "filter IsDir dirListY = []"
  shows \<open>decode (Suc (Suc fuel)) fs vcsDriver path zeroState =
           Inr \<lparr>buf = ''{"x":{},"y":{}}'', incomingBuf = ''{"x":{},"y":{}}'',
                hasMergeConflict = False\<rparr> \<and>
         encoding_json_Unmarshal ''{"x":{},"y":{}}'' =
           Inr (JObject [(''x'', JObject []), (''y'', JObject [])])\<close>
proof -
  define topDir where "topDir = ReplaceAll_backslash (filepath_Dir path)"
  define st1 where "st1 = \<lparr>buf = ''{'', incomingBuf = ''{'', hasMergeConflict = False\<rparr>"
  define st2 where \<open>st2 = \<lparr>buf = ''{"x":'', incomingBuf = ''{"x":'', hasMergeConflict = False\<rparr>\<close>
  define st3 where \<open>st3 = \<lparr>buf = ''{"x":{}'', incomingBuf = ''{"x":{}'', hasMergeConflict = False\<rparr>\<close>
  define st4 where \<open>st4 = \<lparr>buf = ''{"x":{},"y":'', incomingBuf = ''{"x":{},"y":'',
                            hasMergeConflict = False\<rparr>\<close>
  define st5 where \<open>st5 = \<lparr>buf = ''{"x":{},"y":{}'', incomingBuf = ''{"x":{},"y":{}'',
                            hasMergeConflict = False\<rparr>\<close>
  define st3c where \<open>st3c = \<lparr>buf = ''{"x":{},'', incomingBuf = ''{"x":{},'',
                            hasMergeConflict = False\<rparr>\<close>
  have r: "readEntryFile fs vcsDriver path zeroState = Inr (False, False, zeroState)"
    by (rule readEntryFile_missing [OF vcs(1) entry])
  have open1: "WriteRuneAll CHR ''{'' zeroState = st1"
    by (simp add: WriteRuneAll_def zeroState_def st1_def)
  have nocut: "truncateLastBracket st1 = Inr (False, st1)"
    by (rule truncateLastBracket_none) (simp add: st1_def)
  have bf1: "beforeField False False st1 = Inr (False, st1)"
    by (simp add: beforeField_def nocut)
  have bf2: "beforeField True False st3 = Inr (False, st3c)"
    by (simp add: beforeField_def WriteStringAll_def st3_def st3c_def)
  have w1: "WriteStringAll ([CHR 0x22] @ ''x'' @ [CHR 0x22] @ '':'') st1 = st2"
    by (simp add: WriteStringAll_def st1_def st2_def)
  have w2: "WriteStringAll ([CHR 0x22] @ ''y'' @ [CHR 0x22] @ '':'') st3c = st4"
    by (simp add: WriteStringAll_def st3c_def st4_def)
  have n: "ReplaceAll_backslash ''x'' = ''x''" "ReplaceAll_backslash ''y'' = ''y''"
    by (simp_all add: ReplaceAll_backslash_def)
  have cx: "decode (Suc fuel) fs vcsDriver (topDir @ ''/'' @ ReplaceAll_backslash ''x'' @ ''/index.json'')
              (WriteStringAll ([CHR 0x22] @ ''x'' @ [CHR 0x22] @ '':'') st1) = Inr st3"
    unfolding w1 n
    using decode_file_leaf [OF vcs(2) x, of fuel]
    by (simp add: topDir_def WriteAll_def st2_def st3_def)
  have cy: "decode (Suc fuel) fs vcsDriver (topDir @ ''/'' @ ReplaceAll_backslash ''y'' @ ''/index.json'')
              (WriteStringAll ([CHR 0x22] @ ''y'' @ [CHR 0x22] @ '':'') st3c) = Inr st5"
    unfolding w2 n
    using decode_file_leaf [OF vcs(3) y, of fuel]
    by (simp add: topDir_def WriteAll_def st4_def st5_def)
  have loop: "decode_dirList (Suc fuel) fs vcsDriver topDir (filter IsDir dirList) False False
                (if False then zeroState else WriteRuneAll CHR ''{'' zeroState) = Inr (False, st5)"
    unfolding top(2) open1
    by (simp only: if_False decode_dirList_step [OF bf1 cx] decode_dirList_step [OF bf2 cy]
          decode_dirList.simps(1))
  from decode_node [OF r top(1) loop [unfolded topDir_def]]
  have "decode (Suc (Suc fuel)) fs vcsDriver path zeroState = Inr (WriteRuneAll CHR ''}'' st5)"
    by simp
  moreover have \<open>encoding_json_Unmarshal ''{"x":{},"y":{}}'' =
      Inr (JObject [(''x'', JObject []), (''y'', JObject [])])\<close>
    by code_simp
  ultimately show ?thesis by (simp add: WriteRuneAll_def st5_def)
qed

theorem empty_entry_witness:
  \<open>declines None ''/D/entry.json'' zeroState \<and>
   ReadFile (disk empty_entry_files) ''/D/entry.json'' = IsNotExist \<and>
   ReadDirents (disk empty_entry_files) ''/D'' = Inr [Dirent ''x'' True, Dirent ''y'' True] \<and>
   ReadFile (disk empty_entry_files) ''/D/x/index.json'' = FileBytes ''{}'' \<and>
   ReadDirents (disk empty_entry_files) ''/D/x'' = Inr [Dirent ''index.json'' False] \<and>
   ReadFile (disk empty_entry_files) ''/D/y/index.json'' = FileBytes ''{}'' \<and>
   ReadDirents (disk empty_entry_files) ''/D/y'' = Inr [Dirent ''index.json'' False] \<and>
   decode 2 (disk empty_entry_files) None ''/D/entry.json'' zeroState =
     Inr \<lparr>buf = ''{"x":{},"y":{}}'', incomingBuf = ''{"x":{},"y":{}}'',
          hasMergeConflict = False\<rparr>\<close>
proof -
  have d: "ReplaceAll_backslash (filepath_Dir ''/D/entry.json'') = ''/D''"
    "ReplaceAll_backslash (filepath_Dir (''/D'' @ ''/x/index.json'')) = ''/D/x''"
    "ReplaceAll_backslash (filepath_Dir (''/D'' @ ''/y/index.json'')) = ''/D/y''"
    by code_simp+
  have v: "declines None p st" for p st by (simp add: declines_def)
  have e: "ReadFile (disk empty_entry_files) ''/D/entry.json'' = IsNotExist"
    by code_simp
  have t: "ReadDirents (disk empty_entry_files) ''/D'' = Inr [Dirent ''x'' True, Dirent ''y'' True]"
    by code_simp
  have x: "ReadFile (disk empty_entry_files) (''/D'' @ ''/x/index.json'') = FileBytes ''{}''"
    "ReadDirents (disk empty_entry_files) ''/D/x'' = Inr [Dirent ''index.json'' False]"
    by code_simp+
  have y: "ReadFile (disk empty_entry_files) (''/D'' @ ''/y/index.json'') = FileBytes ''{}''"
    "ReadDirents (disk empty_entry_files) ''/D/y'' = Inr [Dirent ''index.json'' False]"
    by code_simp+
  have two: "Suc (Suc 0) = 2" by simp
  from empty_entry [of None "''/D/entry.json''" "disk empty_entry_files"
      "[Dirent ''x'' True, Dirent ''y'' True]" "[Dirent ''index.json'' False]"
      "[Dirent ''index.json'' False]" 0,
      unfolded d two, OF v v v e t _ x(1,2) _ y(1,2)]
  have \<open>decode 2 (disk empty_entry_files) None ''/D/entry.json'' zeroState =
     Inr \<lparr>buf = ''{"x":{},"y":{}}'', incomingBuf = ''{"x":{},"y":{}}'',
          hasMergeConflict = False\<rparr>\<close> by simp
  with v e t x y show ?thesis by simp
qed

text \<open>
  C7, conflict propagation: when the driver reports the entry file contested with
  ours \<^verbatim>\<open>{"a":1}\<close> and theirs \<^verbatim>\<open>{"a":2}\<close> and the directory has no subdirectory, the
  primary buffer is \<^verbatim>\<open>{"a":1}\<close>, the incoming buffer is \<^verbatim>\<open>{"a":2}\<close>, the flag is set, and
  \<^verbatim>\<open>Unmarshal\<close> returns \<^verbatim>\<open>true\<close> with the two objects read from the two buffers.
\<close>

theorem conflict_propagation:
  assumes init: "Init d = None"
    and abs: "filepath_Abs entryFilename = Inr absEntryFilename"
    and contested: \<open>HandleFile d (ReplaceAll_backslash absEntryFilename) [] [] =
                     Inr (True, ''{"a":1}'', ''{"a":2}'')\<close>
    and top: "ReadDirents fs (ReplaceAll_backslash (filepath_Dir
                (ReplaceAll_backslash absEntryFilename))) = Inr dirList"
      "filter IsDir dirList = []"
  shows \<open>decode (Suc fuel) fs (Some d) (ReplaceAll_backslash absEntryFilename) zeroState =
           Inr \<lparr>buf = ''{"a":1}'', incomingBuf = ''{"a":2}'', hasMergeConflict = True\<rparr> \<and>
         Unmarshal (Suc fuel) fs filepath_Abs encoding_json_Unmarshal entryFilename Ptr (Some d) =
           Inr (True, JObject [(''a'', JNumber ''1'')], Some (JObject [(''a'', JNumber ''2'')]))\<close>
proof -
  let ?path = "ReplaceAll_backslash absEntryFilename"
  have dec: \<open>decode (Suc fuel) fs (Some d) ?path zeroState =
           Inr \<lparr>buf = ''{"a":1}'', incomingBuf = ''{"a":2}'', hasMergeConflict = True\<rparr>\<close>
    using readEntryFile_contested [of d ?path zeroState _ _ fs] contested top(1)
      decode_dirList_no_dirs [OF top(2)]
    by (simp add: zeroState_def)
  have p1: \<open>encoding_json_Unmarshal ''{"a":1}'' = Inr (JObject [(''a'', JNumber ''1'')])\<close>
    by code_simp
  have p2: \<open>encoding_json_Unmarshal ''{"a":2}'' = Inr (JObject [(''a'', JNumber ''2'')])\<close>
    by code_simp
  from dec init abs p1 p2 show ?thesis by (simp add: Unmarshal_def)
qed

theorem conflict_propagation_witness:
  \<open>Init (contested ''/D/entry.json'' ''{"a":1}'' ''{"a":2}'') = None \<and>
   HandleFile (contested ''/D/entry.json'' ''{"a":1}'' ''{"a":2}'') ''/D/entry.json'' [] [] =
     Inr (True, ''{"a":1}'', ''{"a":2}'') \<and>
   ReadDirents (disk conflict_files) ''/D'' = Inr [Dirent ''entry.json'' False] \<and>
   Unmarshal 1 (disk conflict_files) Inr encoding_json_Unmarshal ''/D/entry.json'' Ptr
       (Some (contested ''/D/entry.json'' ''{"a":1}'' ''{"a":2}'')) =
     Inr (True, JObject [(''a'', JNumber ''1'')], Some (JObject [(''a'', JNumber ''2'')]))\<close>
proof -
  let ?d = \<open>contested ''/D/entry.json'' ''{"a":1}'' ''{"a":2}''\<close>
  have r: "ReplaceAll_backslash ''/D/entry.json'' = ''/D/entry.json''"
    "ReplaceAll_backslash (filepath_Dir ''/D/entry.json'') = ''/D''"
    by code_simp+
  have i: "Init ?d = None" by (simp add: contested_def)
  have h: \<open>HandleFile ?d ''/D/entry.json'' [] [] = Inr (True, ''{"a":1}'', ''{"a":2}'')\<close>
    by (simp add: contested_def)
  have t: "ReadDirents (disk conflict_files) ''/D'' = Inr [Dirent ''entry.json'' False]"
    by code_simp
  have one: "Suc 0 = 1" by simp
  from conflict_propagation [of ?d Inr "''/D/entry.json''" "''/D/entry.json''"
      "disk conflict_files" "[Dirent ''entry.json'' False]" 0, unfolded r one, OF i refl h t]
  have \<open>Unmarshal 1 (disk conflict_files) Inr encoding_json_Unmarshal ''/D/entry.json'' Ptr
       (Some ?d) =
     Inr (True, JObject [(''a'', JNumber ''1'')], Some (JObject [(''a'', JNumber ''2'')]))\<close>
    by simp
  with i h t show ?thesis by simp
qed

text \<open>
  C2, truncation safety, evaluated where it fails: node \<^verbatim>\<open>y\<close> has no \<^verbatim>\<open>index.json\<close>, so
  its opening brace is synthesized and \<^verbatim>\<open>hasClosingBracket\<close> is false; at its first
  child \<^verbatim>\<open>z\<close> the scan still runs, finds the closing brace of the finished sibling
  \<^verbatim>\<open>x\<close> and cuts there. The buffers end as \<^verbatim>\<open>{"x":{,"z":{}}}\<close>, which is not JSON.
\<close>

theorem truncation_cuts_sibling:
  \<open>beforeField False False
     \<lparr>buf = ''{"x":{},"y":{'', incomingBuf = ''{"x":{},"y":{'', hasMergeConflict = False\<rparr> =
     Inr (False, \<lparr>buf = ''{"x":{,'', incomingBuf = ''{"x":{,'', hasMergeConflict = False\<rparr>) \<and>
   decode 3 (disk [JSONFile ''/D/x/index.json'' ''{}'', JSONFile ''/D/y/z/index.json'' ''{}''])
     None ''/D/entry.json'' zeroState =
     Inr \<lparr>buf = ''{"x":{,"z":{}}}'', incomingBuf = ''{"x":{,"z":{}}}'', hasMergeConflict = False\<rparr> \<and>
   \<not> checkValid ''{"x":{,"z":{}}}''\<close>
  by code_simp

subsection \<open>The encoder\<close>

lemma encode_fields_omitempty:
  assumes "Contains (jsonOptions fieldType) ''omitempty''"
  shows "encode_fields jm path (pre @ (fieldType, field) # post) fbuf hw Paths =
         encode_fields jm path (pre @ post) fbuf hw Paths"
  using assms
proof (induction pre arbitrary: fbuf hw Paths)
  case Nil
  then show ?case by simp
next
  case (Cons p pre)
  obtain ft f where p: "p = (ft, f)" by (cases p)
  from Cons show ?case unfolding p by (simp split: sum.splits)
qed

text \<open>
  C9, the omit-if-empty quirk: a struct field whose \<^verbatim>\<open>json\<close> tag options contain
  \<^verbatim>\<open>omitempty\<close> is skipped whatever its value is. Encoding the struct gives, at
  \<^verbatim>\<open>encode\<close> and at \<^verbatim>\<open>Marshal\<close>, exactly what encoding the struct without that field
  gives, so neither the field's name nor its value reaches any file.
\<close>

theorem omitempty_excluded:
  assumes "Contains (jsonOptions fieldType) ''omitempty''"
  shows "encode json_Marshal path (PtrV (StructV (pre @ (fieldType, field) # post))) Paths =
           encode json_Marshal path (PtrV (StructV (pre @ post))) Paths \<and>
         Marshal json_Marshal json_Indent path (PtrV (StructV (pre @ (fieldType, field) # post))) =
           Marshal json_Marshal json_Indent path (PtrV (StructV (pre @ post)))"
  using encode_fields_omitempty [OF assms]
  by (simp add: Marshal_def marshalIndent_def marshal_def)

theorem omitempty_excluded_witness:
  \<open>Contains (jsonOptions (exported ''B'' [(''json'', ''b,omitempty'')])) ''omitempty'' \<and>
   encode encoding_json_Marshal ''/D/entry.json''
     (PtrV (StructV [(exported ''A'' [], IntV 1),
                     (exported ''B'' [(''json'', ''b,omitempty'')], IntV 5)])) [] =
   Inr [JSONFile ''/D/entry.json'' ''{"A":1}'']\<close>
proof -
  have h: "Contains (jsonOptions (exported ''B'' [(''json'', ''b,omitempty'')])) ''omitempty''"
    by code_simp
  have e: \<open>encode encoding_json_Marshal ''/D/entry.json''
              (PtrV (StructV [(exported ''A'' [], IntV 1)])) [] =
            Inr [JSONFile ''/D/entry.json'' ''{"A":1}'']\<close>
    by code_simp
  from omitempty_excluded [OF h, of encoding_json_Marshal "''/D/entry.json''"
      "[(exported ''A'' [], IntV 1)]" "IntV 5" "[]" "[]"] e h
  show ?thesis by simp
qed

text \<open>
  C4, artifact validity, evaluated where it fails: a struct whose only field is
  distributed has no inline field, and \<^verbatim>\<open>encode\<close> still appends a file for it, with the
  data \<^verbatim>\<open>{\<close>. That is not a JSON object, \<^verbatim>\<open>json.Indent\<close> rejects it, and \<^verbatim>\<open>Marshal\<close>
  returns the error instead of the files of the children.
\<close>

theorem zero_inline_fields_artifact:
  \<open>marshal encoding_json_Marshal ''/D/entry.json''
     (PtrV (StructV [(exported ''Items'' [(''dfjson'', ''distributable'')],
                      MapV [(Sprintf_v ''k'', PtrV (StructV [(exported ''F'' [], IntV 1)]))])])) =
     Inr [JSONFile ''/D/Items/k/index.json'' ''{"F":1}'', JSONFile ''/D/entry.json'' ''{''] \<and>
   \<not> checkValid ''{'' \<and>
   Marshal encoding_json_Marshal encoding_json_Indent ''/D/entry.json''
     (PtrV (StructV [(exported ''Items'' [(''dfjson'', ''distributable'')],
                      MapV [(Sprintf_v ''k'', PtrV (StructV [(exported ''F'' [], IntV 1)]))])])) =
     Inl (Err ''json: syntax error'')\<close>
  by code_simp

text \<open>
  C5, on-disk layout, evaluated where it fails: a struct-valued field tagged
  \<^verbatim>\<open>dfjson:"distributable"\<close> with key \<^verbatim>\<open>B\<close> is stored under the path \<^verbatim>\<open>/D/B/\<close>, not
  \<^verbatim>\<open>/D/B/index.json\<close>, the path the decoder reads; the same struct as the entry \<^verbatim>\<open>B\<close> of
  a map is stored at \<^verbatim>\<open>/D/B/index.json\<close>.
\<close>

theorem distributable_struct_path:
  \<open>marshal encoding_json_Marshal ''/D/entry.json''
     (PtrV (StructV [(exported ''A'' [], IntV 1),
                     (exported ''B'' [(''dfjson'', ''distributable'')],
                      StructV [(exported ''C'' [], IntV 2)])])) =
     Inr [JSONFile ''/D/B/'' ''{"C":2}'', JSONFile ''/D/entry.json'' ''{"A":1}''] \<and>
   marshal encoding_json_Marshal ''/D/entry.json''
     (MapV [(Sprintf_v ''B'', PtrV (StructV [(exported ''C'' [], IntV 2)]))]) =
     Inr [JSONFile ''/D/B/index.json'' ''{"C":2}'']\<close>
  by code_simp

text \<open>
  C1, round trip, evaluated where it fails: \<^verbatim>\<open>Marshal\<close> of the document with two
  distributed maps returns three files; with exactly these files on disk, \<^verbatim>\<open>Unmarshal\<close>
  reads a document in which the entry \<^verbatim>\<open>j\<close> of \<^verbatim>\<open>Others\<close> has moved into \<^verbatim>\<open>Items\<close>
  and the field \<^verbatim>\<open>Others\<close> is gone.
\<close>

theorem roundtrip_two_distributed_maps:
  \<open>\<exists>files.
     Marshal encoding_json_Marshal encoding_json_Indent ''/D/entry.json'' items_doc = Inr files \<and>
     map Path files = [''/D/Items/k/index.json'', ''/D/Others/j/index.json'', ''/D/entry.json''] \<and>
     Unmarshal 3 (disk files) Inr encoding_json_Unmarshal ''/D/entry.json'' Ptr None =
       Inr (False,
            JObject [(''A'', JNumber ''1''),
                     (''Items'', JObject [(''k'', JObject [(''F'', JNumber ''1'')]),
                                          (''j'', JObject [(''F'', JNumber ''2'')])])],
            None)\<close>
proof -
  let ?files =
     "[JSONFile ''/D/Items/k/index.json''
         [CHR ''{'', CHR 0x0A, CHR 0x09, CHR 0x22, CHR ''F'', CHR 0x22, CHR '':'', CHR '' '',
          CHR ''1'', CHR 0x0A, CHR ''}''],
       JSONFile ''/D/Others/j/index.json''
         [CHR ''{'', CHR 0x0A, CHR 0x09, CHR 0x22, CHR ''F'', CHR 0x22, CHR '':'', CHR '' '',
          CHR ''2'', CHR 0x0A, CHR ''}''],
       JSONFile ''/D/entry.json''
         [CHR ''{'', CHR 0x0A, CHR 0x09, CHR 0x22, CHR ''A'', CHR 0x22, CHR '':'', CHR '' '',
          CHR ''1'', CHR 0x0A, CHR ''}'']]"
  have m: "Marshal encoding_json_Marshal encoding_json_Indent ''/D/entry.json'' items_doc
             = Inr ?files"
    by code_simp
  have p: "map Path ?files =
             [''/D/Items/k/index.json'', ''/D/Others/j/index.json'', ''/D/entry.json'']"
    by simp
  have u: "Unmarshal 3 (disk ?files) Inr encoding_json_Unmarshal ''/D/entry.json'' Ptr None =
       Inr (False,
            JObject [(''A'', JNumber ''1''),
                     (''Items'', JObject [(''k'', JObject [(''F'', JNumber ''1'')]),
                                          (''j'', JObject [(''F'', JNumber ''2'')])])],
            None)"
    by code_simp
  show ?thesis
    by (rule exI [of _ ?files]) (intro conjI m p u)
qed

end
